theory Spec2Isabelle
  imports Main
begin

section \<open>Library functions used by the game code\<close>

text \<open>
  The game code is written against fp-ts arrays and options.  The few library
  functions it calls are written out here with the behaviour the library
  documents: \<open>array.lookup\<close> answers \<open>none\<close> for an index below zero or past the
  end, \<open>array.replicate\<close> answers the empty array for a count that is not
  positive, \<open>nonEmptyArray.range\<close> is inclusive at both ends, and
  \<open>array.comprehension\<close> over two inputs iterates the first input in the outer
  loop.
\<close>

definition array_lookup :: "int \<Rightarrow> 'a list \<Rightarrow> 'a option" where
  "array_lookup n as = (if n < 0 \<or> int (length as) \<le> n then None else Some (as ! nat n))"

definition array_replicate :: "int \<Rightarrow> 'a \<Rightarrow> 'a list" where
  "array_replicate n a = (if n \<le> 0 then [] else replicate (nat n) a)"

definition nea_range :: "int \<Rightarrow> int \<Rightarrow> int list" where
  "nea_range start end = (if start \<le> end then [start..end] else [start])"

definition array_comprehension :: "'a list \<Rightarrow> 'b list \<Rightarrow> ('a \<Rightarrow> 'b \<Rightarrow> 'c) \<Rightarrow> 'c list" where
  "array_comprehension is js f = concat (map (\<lambda>a. map (\<lambda>b. f a b) js) is)"

fun array_filterMap :: "('a \<Rightarrow> 'b option) \<Rightarrow> 'a list \<Rightarrow> 'b list" where
  "array_filterMap f [] = []"
| "array_filterMap f (a # as) =
     (case f a of None \<Rightarrow> array_filterMap f as | Some b \<Rightarrow> b # array_filterMap f as)"

text \<open>
  \<open>array.findFirstMap\<close> walks the array and stops at the first element on which
  the callback answers \<open>some\<close>.  The callback of the win detector is recursive and
  its result is wrapped in one more \<open>option\<close> layer whose \<open>None\<close> stands for a
  call that does not return; \<open>array_findFirstMap\<close> passes that layer through.
\<close>

fun array_findFirstMap :: "('a \<Rightarrow> 'b option option) \<Rightarrow> 'a list \<Rightarrow> 'b option option" where
  "array_findFirstMap f [] = Some None"
| "array_findFirstMap f (a # as) =
     (case f a of
        None \<Rightarrow> None
      | Some None \<Rightarrow> array_findFirstMap f as
      | Some (Some b) \<Rightarrow> Some (Some b))"

definition isSome :: "'a option \<Rightarrow> bool" where
  "isSome ma = (case ma of None \<Rightarrow> False | Some _ \<Rightarrow> True)"


section \<open>Pieces, rows and the board (shared/src/codecs.ts)\<close>

text \<open>The pieces \<open>"X"\<close> and \<open>"O"\<close>.\<close>

datatype Piece = PieceX | PieceO

fun nextPiece :: "Piece \<Rightarrow> Piece" where
  "nextPiece PieceX = PieceO"
| "nextPiece PieceO = PieceX"

record Row =
  left :: "Piece list"
  right :: "Piece list"

datatype RowSide = LeftSide | RightSide

definition MaxRowPieces :: nat where
  "MaxRowPieces = 7"

datatype RowFullError = RowFullError

definition numPieces :: "Row \<Rightarrow> nat" where
  "numPieces row = length (left row) + length (right row)"

definition addPiece :: "Piece \<Rightarrow> RowSide \<Rightarrow> Row \<Rightarrow> RowFullError + Row" where
  "addPiece piece side row =
     (case side of
        LeftSide \<Rightarrow>
          if numPieces row < MaxRowPieces
          then Inr (row\<lparr>left := piece # left row\<rparr>)
          else Inl RowFullError
      | RightSide \<Rightarrow>
          if numPieces row < MaxRowPieces
          then Inr (row\<lparr>right := right row @ [piece]\<rparr>)
          else Inl RowFullError)"

record Board =
  row1 :: Row
  row2 :: Row
  row3 :: Row
  row4 :: Row
  row5 :: Row
  row6 :: Row
  row7 :: Row

datatype RowIndex = Row1 | Row2 | Row3 | Row4 | Row5 | Row6 | Row7

text \<open>\<open>getRow board row\<close> is the property read \<open>board[row]\<close>.\<close>

fun getRow :: "Board \<Rightarrow> RowIndex \<Rightarrow> Row" where
  "getRow board Row1 = row1 board"
| "getRow board Row2 = row2 board"
| "getRow board Row3 = row3 board"
| "getRow board Row4 = row4 board"
| "getRow board Row5 = row5 board"
| "getRow board Row6 = row6 board"
| "getRow board Row7 = row7 board"

text \<open>\<open>setRow board row newRow\<close> is the object spread \<open>{ ...board, [row]: newRow }\<close>.\<close>

fun setRow :: "Board \<Rightarrow> RowIndex \<Rightarrow> Row \<Rightarrow> Board" where
  "setRow board Row1 newRow = board\<lparr>row1 := newRow\<rparr>"
| "setRow board Row2 newRow = board\<lparr>row2 := newRow\<rparr>"
| "setRow board Row3 newRow = board\<lparr>row3 := newRow\<rparr>"
| "setRow board Row4 newRow = board\<lparr>row4 := newRow\<rparr>"
| "setRow board Row5 newRow = board\<lparr>row5 := newRow\<rparr>"
| "setRow board Row6 newRow = board\<lparr>row6 := newRow\<rparr>"
| "setRow board Row7 newRow = board\<lparr>row7 := newRow\<rparr>"

definition rowIndexes :: "RowIndex list" where
  "rowIndexes = [Row1, Row2, Row3, Row4, Row5, Row6, Row7]"

definition toGrid :: "Board \<Rightarrow> Piece option list list" where
  "toGrid board =
     map (\<lambda>rowIndex.
            map Some (left (getRow board rowIndex))
            @ array_replicate (int MaxRowPieces - int (numPieces (getRow board rowIndex))) None
            @ map Some (right (getRow board rowIndex)))
         rowIndexes"


section \<open>The win detector\<close>

record Coord =
  coord_i :: int
  coord_j :: int

record CoordMove =
  movei :: "int \<Rightarrow> int"
  movej :: "int \<Rightarrow> int"

text \<open>
  \<open>chainPieces\<close> calls itself for as long as the next cell in the direction of
  \<open>move\<close> holds \<open>piece\<close> and \<open>chained\<close> does not have exactly four entries.  For a
  \<open>chained\<close> longer than four and a \<open>move\<close> that stays on an occupied cell the
  recursion of the source never ends, so the function is defined as a partial
  function: the outer \<open>None\<close> is a call that does not return, \<open>Some r\<close> is the
  \<open>Option<Coord[]>\<close> it returns.
\<close>

partial_function (option) chainPieces ::
  "Piece option list list \<Rightarrow> CoordMove \<Rightarrow> Coord \<Rightarrow> Piece \<Rightarrow> Coord list \<Rightarrow> Coord list option option"
where
  "chainPieces allRows move coord piece chained =
     (let nextCoord = \<lparr>coord_i = movei move (coord_i coord), coord_j = movej move (coord_j coord)\<rparr>
      in if length chained = 4 then Some (Some chained)
         else
           (case Option.bind
                   (Option.bind (array_lookup (coord_i nextCoord) allRows)
                                (array_lookup (coord_j nextCoord)))
                   id
            of
              None \<Rightarrow> Some None
            | Some p \<Rightarrow>
                if p = piece
                then chainPieces allRows move nextCoord piece (chained @ [nextCoord])
                else Some None))"

definition checkDirection ::
  "Piece option list list \<Rightarrow> CoordMove \<Rightarrow> int list \<Rightarrow> int list \<Rightarrow> Coord list option option"
where
  "checkDirection allRows move is js =
     array_findFirstMap
       (\<lambda>(coord, piece). chainPieces allRows move coord piece [coord])
       (array_filterMap
          (\<lambda>coord.
             map_option (\<lambda>p. (coord, p))
               (Option.bind
                  (Option.bind (array_lookup (coord_i coord) allRows)
                               (array_lookup (coord_j coord)))
                  id))
          (array_comprehension is js (\<lambda>i j. \<lparr>coord_i = i, coord_j = j\<rparr>)))"

definition checkRows :: "Piece option list list \<Rightarrow> Coord list option option" where
  "checkRows allRows =
     checkDirection allRows \<lparr>movei = (\<lambda>i. i), movej = (\<lambda>j. j + 1)\<rparr>
       (nea_range 0 6) (nea_range 0 3)"

definition checkColumns :: "Piece option list list \<Rightarrow> Coord list option option" where
  "checkColumns allRows =
     checkDirection allRows \<lparr>movei = (\<lambda>i. i + 1), movej = (\<lambda>j. j)\<rparr>
       (nea_range 0 3) (nea_range 0 6)"

definition checkRightDiagonal :: "Piece option list list \<Rightarrow> Coord list option option" where
  "checkRightDiagonal allRows =
     checkDirection allRows \<lparr>movei = (\<lambda>i. i + 1), movej = (\<lambda>j. j + 1)\<rparr>
       (nea_range 0 3) (nea_range 0 3)"

definition checkLeftDiagonal :: "Piece option list list \<Rightarrow> Coord list option option" where
  "checkLeftDiagonal allRows =
     checkDirection allRows \<lparr>movei = (\<lambda>i. i + 1), movej = (\<lambda>j. j - 1)\<rparr>
       (nea_range 0 3) (nea_range 3 6)"

text \<open>
  The four checks are joined by \<open>||\<close>, which evaluates its right operand only
  when the left one is false.
\<close>

definition connectedFour :: "Board \<Rightarrow> bool option" where
  "connectedFour board =
     (let allRows = toGrid board
      in Option.bind (checkRows allRows) (\<lambda>r.
           if isSome r then Some True
           else Option.bind (checkColumns allRows) (\<lambda>c.
             if isSome c then Some True
             else Option.bind (checkRightDiagonal allRows) (\<lambda>d.
               if isSome d then Some True
               else Option.bind (checkLeftDiagonal allRows) (\<lambda>l. Some (isSome l))))))"


section \<open>The game engine\<close>

record Move =
  row :: RowIndex
  side :: RowSide

datatype Game =
    Playing (board: Board) (playingPiece: Piece)
  | Over (board: Board) (winner: Piece)

datatype AdvanceError =
    RowFull RowFullError
  | GameOverError
  | IncorrectPieceError (expected: Piece) (actual: Piece)

fun showPiece :: "Piece \<Rightarrow> string" where
  "showPiece PieceX = ''X''"
| "showPiece PieceO = ''O''"

fun showAdvanceError :: "AdvanceError \<Rightarrow> string" where
  "showAdvanceError (RowFull _) = ''Row is full''"
| "showAdvanceError GameOverError = ''Game is over''"
| "showAdvanceError (IncorrectPieceError e a) =
     ''Incorrect piece. Expected '' @ showPiece e @ '', got '' @ showPiece a @ '' ''"

text \<open>
  \<open>advance\<close> returns \<open>None\<close> only if the win detector does not return;
  \<open>Some (Inl e)\<close> is the \<open>left\<close> of the source and \<open>Some (Inr g)\<close> its \<open>right\<close>.
\<close>

definition advance :: "Game \<Rightarrow> Piece \<Rightarrow> Move \<Rightarrow> (AdvanceError + Game) option" where
  "advance game piece mv =
     (case game of
        Playing gboard gplayingPiece \<Rightarrow>
          if piece = gplayingPiece
          then (case addPiece gplayingPiece (side mv) (getRow gboard (row mv)) of
                  Inl e \<Rightarrow> Some (Inl (RowFull e))
                | Inr newRow \<Rightarrow>
                    (let newBoard = setRow gboard (row mv) newRow
                     in Option.bind (connectedFour newBoard) (\<lambda>won.
                          if won
                          then Some (Inr (Over newBoard gplayingPiece))
                          else Some (Inr (Playing newBoard (nextPiece gplayingPiece))))))
          else Some (Inl (IncorrectPieceError gplayingPiece piece))
      | Over _ _ \<Rightarrow> Some (Inl GameOverError))"

definition emptyRow :: Row where
  "emptyRow = \<lparr>left = [], right = []\<rparr>"

definition initGame :: Game where
  "initGame =
     Playing \<lparr>row1 = emptyRow, row2 = emptyRow, row3 = emptyRow, row4 = emptyRow,
              row5 = emptyRow, row6 = emptyRow, row7 = emptyRow\<rparr> PieceX"


section \<open>Decoding a move from the wire (shared api helpers and io-ts codecs)\<close>

text \<open>
  A parsed JSON document.  An object is the list of its own properties; a property
  read \<open>o[k]\<close> is \<open>map_of\<close>, with \<open>None\<close> for \<open>undefined\<close>.
\<close>

datatype json =
    JNull
  | JBool bool
  | JNumber int
  | JString string
  | JArray "json list"
  | JObject "(string \<times> json) list"

text \<open>
  An io-ts validation error: the offending value (\<open>None\<close> for \<open>undefined\<close>) and
  the context path as pairs of key and codec name.
\<close>

datatype ValidationError = ValidationError "json option" "(string \<times> string) list"

type_synonym Errors = "ValidationError list"

datatype ApiError =
    JsonParseError string
  | DecodeError Errors

text \<open>
  \<open>t.keyof(board, "RowIndex")\<close> accepts exactly the strings that are own keys of
  \<open>board\<close>, and \<open>t.keyof(row, "RowSide")\<close> those of \<open>row\<close>.
\<close>

definition rowIndexCodec :: "json option \<Rightarrow> RowIndex option" where
  "rowIndexCodec u =
     (case u of
        Some (JString s) \<Rightarrow>
          if s = ''row1'' then Some Row1
          else if s = ''row2'' then Some Row2
          else if s = ''row3'' then Some Row3
          else if s = ''row4'' then Some Row4
          else if s = ''row5'' then Some Row5
          else if s = ''row6'' then Some Row6
          else if s = ''row7'' then Some Row7
          else None
      | _ \<Rightarrow> None)"

definition rowSideCodec :: "json option \<Rightarrow> RowSide option" where
  "rowSideCodec u =
     (case u of
        Some (JString s) \<Rightarrow>
          if s = ''left'' then Some LeftSide
          else if s = ''right'' then Some RightSide
          else None
      | _ \<Rightarrow> None)"

text \<open>
  \<open>moveCodec = t.type({ row: rowIndexCodec, side: rowSideCodec }, "Move")\<close>.
  \<open>t.type\<close> rejects anything that is not a plain object, validates each declared
  property, collects the errors of all of them, and does not look at properties
  it does not declare.
\<close>

definition moveCodec :: "json \<Rightarrow> Errors + Move" where
  "moveCodec u =
     (case u of
        JObject props \<Rightarrow>
          (let rowValue = map_of props ''row'';
               sideValue = map_of props ''side'';
               errors =
                 (case rowIndexCodec rowValue of
                    None \<Rightarrow> [ValidationError rowValue [([], ''Move''), (''row'', ''RowIndex'')]]
                  | Some _ \<Rightarrow> [])
                 @ (case rowSideCodec sideValue of
                      None \<Rightarrow> [ValidationError sideValue [([], ''Move''), (''side'', ''RowSide'')]]
                    | Some _ \<Rightarrow> [])
           in case (rowIndexCodec rowValue, rowSideCodec sideValue) of
                (Some r, Some s) \<Rightarrow> Inr \<lparr>row = r, side = s\<rparr>
              | _ \<Rightarrow> Inl errors)
      | _ \<Rightarrow> Inl [ValidationError (Some u) [([], ''Move'')]])"

definition decode :: "('u \<Rightarrow> Errors + 'a) \<Rightarrow> 'u \<Rightarrow> ApiError + 'a" where
  "decode codec u = (case codec u of Inl e \<Rightarrow> Inl (DecodeError e) | Inr a \<Rightarrow> Inr a)"

text \<open>
  \<open>JSON.parse\<close> is the platform's; it is a parameter here, \<open>None\<close> standing for a
  thrown exception.
\<close>

definition parseJson :: "(string \<Rightarrow> json option) \<Rightarrow> string \<Rightarrow> ApiError + json" where
  "parseJson JSON_parse text =
     (case JSON_parse text of
        None \<Rightarrow> Inl (JsonParseError ''JSON parse failed'')
      | Some v \<Rightarrow> Inr v)"

text \<open>Interpolating an array into a template string joins its elements with commas.\<close>

fun joinComma :: "string list \<Rightarrow> string" where
  "joinComma [] = []"
| "joinComma [s] = s"
| "joinComma (s # t # ss) = s @ '','' @ joinComma (t # ss)"

text \<open>The path reporter \<open>failure\<close> of io-ts is a parameter of \<open>showApiError\<close>.\<close>

definition showApiError :: "(Errors \<Rightarrow> string list) \<Rightarrow> ApiError \<Rightarrow> string" where
  "showApiError failure err =
     (case err of
        JsonParseError parseError \<Rightarrow> ''JsonParseError: '' @ [CHR 0x22] @ parseError @ [CHR 0x22]
      | DecodeError decodeError \<Rightarrow>
          ''DecodeError: '' @ [CHR 0x22] @ joinComma (failure decodeError) @ [CHR 0x22])"


section \<open>The session state machine (server/src/state.ts)\<close>

datatype Message =
    Error string
  | Connected Piece
  | OpponentLeft
  | GameUpdate Game

text \<open>
  \<open>'ws\<close> is the type of socket handles and \<open>'db\<close> the type of the database
  handle; the transition function only stores and copies them.
\<close>

datatype ('ws, 'db) State =
    Empty (db: 'db)
  | WaitingForOpponent (playerX: 'ws) (db: 'db)
  | Ready (playerX: 'ws) (playerO: 'ws) (db: 'db)
  | Started (playerX: 'ws) (playerO: 'ws) (game: Game) (gameId: int) (db: 'db)

text \<open>
  \<open>data\<close> of \<open>MessageReceived\<close> is the text \<open>data.toString("utf8")\<close> of the raw
  payload.
\<close>

datatype 'ws Action =
    PlayerJoined 'ws
  | PlayerLeft Piece
  | GameStarted Game int
  | MessageReceived Piece string

text \<open>
  An effect of the source is a closure built by one of seven functions; here it
  is the name of that function with the arguments the closure captured.
\<close>

datatype 'ws Effect =
    logError string
  | logDebug string
  | send Message 'ws
  | startGame
  | saveMove int Move Piece
  | broadcast Message
  | subscribe Piece 'ws

definition join :: "'ws \<Rightarrow> ('ws, 'db) State \<Rightarrow> string + (('ws, 'db) State \<times> 'ws Effect list)" where
  "join ws state =
     (case state of
        Empty sdb \<Rightarrow>
          Inr (WaitingForOpponent ws sdb,
               [send (Connected PieceX) ws,
                logDebug ''First player joined. Waiting for the second player...''])
      | WaitingForOpponent splayerX sdb \<Rightarrow>
          Inr (Ready splayerX ws sdb,
               [send (Connected PieceO) ws,
                startGame,
                logDebug ''Second player joined. Starting game...''])
      | Ready _ _ _ \<Rightarrow> Inl ''Game already started''
      | Started _ _ _ _ _ \<Rightarrow> Inl ''Game already started'')"

text \<open>
  \<open>move\<close> and \<open>update\<close> return \<open>None\<close> only if \<open>advance\<close> does not return.
\<close>

definition move ::
  "Piece \<Rightarrow> ('ws, 'db) State \<Rightarrow> Move \<Rightarrow> (string + (('ws, 'db) State \<times> 'ws Effect list)) option"
where
  "move playerPiece state mv =
     (case state of
        Empty _ \<Rightarrow> Some (Inl ''No players connected'')
      | WaitingForOpponent _ _ \<Rightarrow> Some (Inl ''Waiting for opponent'')
      | Ready _ _ _ \<Rightarrow> Some (Inl ''Game not started yet'')
      | Started splayerX splayerO sgame sgameId sdb \<Rightarrow>
          Option.bind (advance sgame playerPiece mv) (\<lambda>result.
            case result of
              Inl e \<Rightarrow> Some (Inl (showAdvanceError e))
            | Inr g \<Rightarrow>
                Some (Inr (Started splayerX splayerO g sgameId sdb,
                           [saveMove sgameId mv playerPiece,
                            broadcast (GameUpdate g)]))))"

text \<open>
  In the \<open>MessageReceived\<close> case the pipeline of \<open>either.chain\<close>,
  \<open>either.mapLeft\<close> and \<open>either.fold\<close> is written as the case analysis it
  performs: the first \<open>left\<close> ends the pipeline and is logged.
\<close>

definition update ::
  "(string \<Rightarrow> json option) \<Rightarrow> (Errors \<Rightarrow> string list) \<Rightarrow> 'ws Action \<Rightarrow> ('ws, 'db) State
     \<Rightarrow> (('ws, 'db) State \<times> 'ws Effect list) option"
where
  "update JSON_parse failure action state =
     (case action of
        PlayerJoined player \<Rightarrow>
          (case join player state of
             Inl e \<Rightarrow> Some (state, [logError e])
           | Inr r \<Rightarrow> Some r)
      | PlayerLeft playerPiece \<Rightarrow>
          (case state of
             Started splayerX splayerO _ _ sdb \<Rightarrow>
               Some (Empty sdb,
                     [logDebug (''Player '' @ showPiece playerPiece @ '' left the game''),
                      send OpponentLeft (if playerPiece = PieceX then splayerO else splayerX)])
           | _ \<Rightarrow> Some (Empty (db state), []))
      | GameStarted agame agameId \<Rightarrow>
          (case state of
             Ready splayerX splayerO sdb \<Rightarrow>
               Some (Started splayerX splayerO agame agameId sdb,
                     [subscribe PieceX splayerX,
                      subscribe PieceO splayerO,
                      broadcast (GameUpdate agame)])
           | _ \<Rightarrow> Some (state, [logError ''Game is not ready to be started'']))
      | MessageReceived playerPiece data \<Rightarrow>
          (case parseJson JSON_parse data of
             Inl e \<Rightarrow> Some (state, [logError (showApiError failure e)])
           | Inr u \<Rightarrow>
               (case decode moveCodec u of
                  Inl e \<Rightarrow> Some (state, [logError (showApiError failure e)])
                | Inr mv \<Rightarrow>
                    Option.bind (move playerPiece state mv) (\<lambda>result.
                      case result of
                        Inl e \<Rightarrow> Some (state, [logError e])
                      | Inr r \<Rightarrow> Some r))))"

text \<open>
  What running an effect puts on the wire: the pairs of socket and message handed
  to \<open>ws.send\<close>, given which sockets are open and the state the dispatcher passes
  to the effect.  \<open>send\<close> writes to its socket if it is open; \<open>broadcast\<close> writes
  to the sockets of the state it is run in, and its switch has no case for
  \<open>Ready\<close>; the other effects write to no socket.
\<close>

fun sent :: "('ws \<Rightarrow> bool) \<Rightarrow> 'ws Effect \<Rightarrow> ('ws, 'db) State \<Rightarrow> ('ws \<times> Message) list" where
  "sent isOpen (send message ws) state = (if isOpen ws then [(ws, message)] else [])"
| "sent isOpen (broadcast message) (Empty _) = []"
| "sent isOpen (broadcast message) (WaitingForOpponent px _) =
     (if isOpen px then [(px, message)] else [])"
| "sent isOpen (broadcast message) (Ready _ _ _) = []"
| "sent isOpen (broadcast message) (Started px po _ _ _) =
     (if isOpen px then [(px, message)] else []) @ (if isOpen po then [(po, message)] else [])"
| "sent isOpen (logError _) state = []"
| "sent isOpen (logDebug _) state = []"
| "sent isOpen startGame state = []"
| "sent isOpen (saveMove _ _ _) state = []"
| "sent isOpen (subscribe _ _) state = []"


section \<open>Notions used to state the properties\<close>

subsection \<open>Runs of four on the rendered grid\<close>

text \<open>
  \<open>gridCell g (i, j)\<close> is the content of row \<open>i\<close>, column \<open>j\<close> of the 7x7 grid;
  there is no cell outside rows and columns 0 to 6.
\<close>

definition gridCell :: "Piece option list list \<Rightarrow> int \<times> int \<Rightarrow> Piece option" where
  "gridCell g c =
     (case c of (i, j) \<Rightarrow>
        if 0 \<le> i \<and> i < 7 \<and> 0 \<le> j \<and> j < 7 \<and> nat i < length g \<and> nat j < length (g ! nat i)
        then g ! nat i ! nat j else None)"

text \<open>
  The four directions as steps (rows down, columns right): rightward along a row,
  downward along a column, down-right, down-left.
\<close>

definition directions :: "(int \<times> int) list" where
  "directions = [(0, 1), (1, 0), (1, 1), (1, -1)]"

definition fourCells :: "int \<Rightarrow> int \<Rightarrow> int \<times> int \<Rightarrow> (int \<times> int) list" where
  "fourCells i j d = map (\<lambda>k. (i + k * fst d, j + k * snd d)) [0, 1, 2, 3]"

definition runOf :: "Piece \<Rightarrow> Piece option list list \<Rightarrow> int \<Rightarrow> int \<Rightarrow> int \<times> int \<Rightarrow> bool" where
  "runOf p g i j d = (\<forall>c\<in>set (fourCells i j d). gridCell g c = Some p)"

definition ownsFour :: "Piece \<Rightarrow> Piece option list list \<Rightarrow> bool" where
  "ownsFour p g = (\<exists>i\<in>{0..6}. \<exists>j\<in>{0..6}. \<exists>d\<in>set directions. runOf p g i j d)"

definition fourInARow :: "Piece option list list \<Rightarrow> bool" where
  "fourInARow g = (\<exists>p\<in>{PieceX, PieceO}. ownsFour p g)"

subsection \<open>Auxiliary notions for the proofs about the win detector\<close>

definition cellAt :: "Piece option list list \<Rightarrow> Coord \<Rightarrow> Piece option" where
  "cellAt allRows c =
     Option.bind (Option.bind (array_lookup (coord_i c) allRows) (array_lookup (coord_j c))) id"

definition stepCoord :: "CoordMove \<Rightarrow> Coord \<Rightarrow> Coord" where
  "stepCoord m c = \<lparr>coord_i = movei m (coord_i c), coord_j = movej m (coord_j c)\<rparr>"

definition startsRun :: "Piece option list list \<Rightarrow> CoordMove \<Rightarrow> Coord \<Rightarrow> bool" where
  "startsRun g m c =
     (case cellAt g c of
        None \<Rightarrow> False
      | Some p \<Rightarrow> cellAt g (stepCoord m c) = Some p
            \<and> cellAt g (stepCoord m (stepCoord m c)) = Some p
            \<and> cellAt g (stepCoord m (stepCoord m (stepCoord m c))) = Some p)"

definition inGrid :: "int \<Rightarrow> int \<Rightarrow> bool" where
  "inGrid i j = (0 \<le> i \<and> i < 7 \<and> 0 \<le> j \<and> j < 7)"

definition runFrom :: "Piece option list list \<Rightarrow> int \<times> int \<Rightarrow> int \<Rightarrow> int \<Rightarrow> bool" where
  "runFrom g d i j = (\<exists>p\<in>{PieceX, PieceO}. runOf p g i j d)"

subsection \<open>Sequences of insertions and of moves\<close>

text \<open>Inserting a sequence of pieces into a row, stopping at the first failure.\<close>

fun insertAll :: "(Piece \<times> RowSide) list \<Rightarrow> Row \<Rightarrow> RowFullError + Row" where
  "insertAll [] r = Inr r"
| "insertAll ((p, s) # ms) r =
     (case addPiece p s r of Inl e \<Rightarrow> Inl e | Inr r' \<Rightarrow> insertAll ms r')"

text \<open>Playing a sequence of moves, every one of which has to be accepted.\<close>

fun playMoves :: "Game \<Rightarrow> (Piece \<times> Move) list \<Rightarrow> Game option" where
  "playMoves g [] = Some g"
| "playMoves g ((p, mv) # ms) =
     (case advance g p mv of Some (Inr g') \<Rightarrow> playMoves g' ms | _ \<Rightarrow> None)"

text \<open>The capacity invariant of a board, and the position of a row in the grid.\<close>

definition withinCapacity :: "Board \<Rightarrow> bool" where
  "withinCapacity b = (\<forall>r\<in>set rowIndexes. numPieces (getRow b r) \<le> MaxRowPieces)"

fun rowPosition :: "RowIndex \<Rightarrow> nat" where
  "rowPosition Row1 = 0"
| "rowPosition Row2 = 1"
| "rowPosition Row3 = 2"
| "rowPosition Row4 = 3"
| "rowPosition Row5 = 4"
| "rowPosition Row6 = 5"
| "rowPosition Row7 = 6"


text \<open>The row of the grid that \<open>toGrid\<close> builds from one row of the board.\<close>

definition renderRow :: "Row \<Rightarrow> Piece option list" where
  "renderRow r = map Some (left r)
                 @ array_replicate (int MaxRowPieces - int (numPieces r)) None
                 @ map Some (right r)"

subsection \<open>Running effects, and kinds of states\<close>

text \<open>
  The dispatcher commits the new state and then runs the effects in order on it;
  \<open>sentBy\<close> is what they put on the wire together.
\<close>

definition sentBy :: "('ws \<Rightarrow> bool) \<Rightarrow> 'ws Effect list \<Rightarrow> ('ws, 'db) State \<Rightarrow> ('ws \<times> Message) list" where
  "sentBy isOpen effects state = concat (map (\<lambda>effect. sent isOpen effect state) effects)"

fun isReady :: "('ws, 'db) State \<Rightarrow> bool" where
  "isReady (Ready _ _ _) = True"
| "isReady _ = False"

fun isStarted :: "('ws, 'db) State \<Rightarrow> bool" where
  "isStarted (Started _ _ _ _ _) = True"
| "isStarted _ = False"

subsection \<open>Rejected actions\<close>

text \<open>The literal sets of the wire format for rows and sides.\<close>

definition rowNames :: "string list" where
  "rowNames = [''row1'', ''row2'', ''row3'', ''row4'', ''row5'', ''row6'', ''row7'']"

definition sideNames :: "string list" where
  "sideNames = [''left'', ''right'']"

definition namedIn :: "string list \<Rightarrow> json option \<Rightarrow> bool" where
  "namedIn names v = (\<exists>s\<in>set names. v = Some (JString s))"

text \<open>
  An action is rejected in a state when it is a join and the state is \<open>Ready\<close> or
  \<open>Started\<close>, when it is a game start and the state is not \<open>Ready\<close>, or when it is
  a message and the state is not \<open>Started\<close>, or the payload is not JSON, or it does
  not decode to a move, or \<open>advance\<close> refuses the move.
\<close>

fun rejected :: "(string \<Rightarrow> json option) \<Rightarrow> 'ws Action \<Rightarrow> ('ws, 'db) State \<Rightarrow> bool" where
  "rejected P (PlayerJoined ws) st = (isReady st \<or> isStarted st)"
| "rejected P (PlayerLeft pc) st = False"
| "rejected P (GameStarted g gid) st = (\<not> isReady st)"
| "rejected P (MessageReceived pc payload) st =
     (\<not> isStarted st
      \<or> (case P payload of
            None \<Rightarrow> True
          | Some u \<Rightarrow>
              (case moveCodec u of
                 Inl _ \<Rightarrow> True
               | Inr mv \<Rightarrow>
                   (case advance (game st) pc mv of Some (Inl _) \<Rightarrow> True | _ \<Rightarrow> False))))"

subsection \<open>Concrete boards, games and payloads\<close>

text \<open>Row 1 holds three pieces of one player in columns 0 to 2, and then four.\<close>

definition threeBoard :: Board where
  "threeBoard =
     \<lparr>row1 = \<lparr>left = [PieceX, PieceX, PieceX], right = []\<rparr>,
      row2 = emptyRow, row3 = emptyRow, row4 = emptyRow,
      row5 = emptyRow, row6 = emptyRow, row7 = emptyRow\<rparr>"

definition fourBoard :: Board where
  "fourBoard = threeBoard\<lparr>row1 := \<lparr>left = [PieceX, PieceX, PieceX, PieceX], right = []\<rparr>\<rparr>"

text \<open>
  Ten alternating moves from the initial game.  They leave \<open>"O"\<close> in column 1 of
  rows 1 to 3 and in column 0 of row 4, with \<open>"X"\<close> to move.
\<close>

definition pushMoves :: "(Piece \<times> Move) list" where
  "pushMoves =
     [(PieceX, \<lparr>row = Row7, side = RightSide\<rparr>),
      (PieceO, \<lparr>row = Row1, side = LeftSide\<rparr>),
      (PieceX, \<lparr>row = Row1, side = LeftSide\<rparr>),
      (PieceO, \<lparr>row = Row2, side = LeftSide\<rparr>),
      (PieceX, \<lparr>row = Row7, side = LeftSide\<rparr>),
      (PieceO, \<lparr>row = Row2, side = LeftSide\<rparr>),
      (PieceX, \<lparr>row = Row6, side = RightSide\<rparr>),
      (PieceO, \<lparr>row = Row3, side = LeftSide\<rparr>),
      (PieceX, \<lparr>row = Row3, side = LeftSide\<rparr>),
      (PieceO, \<lparr>row = Row4, side = LeftSide\<rparr>)]"

definition pushBoardBefore :: Board where
  "pushBoardBefore =
     \<lparr>row1 = \<lparr>left = [PieceX, PieceO], right = []\<rparr>,
      row2 = \<lparr>left = [PieceO, PieceO], right = []\<rparr>,
      row3 = \<lparr>left = [PieceX, PieceO], right = []\<rparr>,
      row4 = \<lparr>left = [PieceO], right = []\<rparr>,
      row5 = \<lparr>left = [], right = []\<rparr>,
      row6 = \<lparr>left = [], right = [PieceX]\<rparr>,
      row7 = \<lparr>left = [PieceX], right = [PieceX]\<rparr>\<rparr>"

definition pushBoardAfter :: Board where
  "pushBoardAfter = pushBoardBefore\<lparr>row4 := \<lparr>left = [PieceX, PieceO], right = []\<rparr>\<rparr>"


text \<open>Row 1 is full: four pieces came in from the left and three from the right.\<close>

definition fullRowBoard :: Board where
  "fullRowBoard =
     threeBoard\<lparr>row1 := \<lparr>left = [PieceX, PieceO, PieceX, PieceO], right = [PieceX, PieceO, PieceX]\<rparr>\<rparr>"

text \<open>Eight insertions that alternate between the two sides.\<close>

definition eightInsertions :: "(Piece \<times> RowSide) list" where
  "eightInsertions =
     [(PieceX, LeftSide), (PieceO, RightSide), (PieceX, LeftSide), (PieceO, RightSide),
      (PieceX, LeftSide), (PieceO, RightSide), (PieceX, LeftSide), (PieceO, RightSide)]"

text \<open>
  Two payloads and what \<open>JSON.parse\<close> makes of them, a stand-in for the path
  reporter, and sockets that are all open.
\<close>

definition pieceZPayload :: string where
  \<open>pieceZPayload = ''{"row":"row1","side":"left","piece":"Z"}''\<close>

definition row9Payload :: string where
  \<open>row9Payload = ''{"row":"row9","side":"left"}''\<close>

definition sampleParse :: "string \<Rightarrow> json option" where
  "sampleParse payload =
     (if payload = pieceZPayload
      then Some (JObject [(''row'', JString ''row1''), (''side'', JString ''left''),
                          (''piece'', JString ''Z'')])
      else if payload = row9Payload
      then Some (JObject [(''row'', JString ''row9''), (''side'', JString ''left'')])
      else None)"

definition sampleFailure :: "Errors \<Rightarrow> string list" where
  "sampleFailure es = map (\<lambda>e. ''Invalid value'') es"

definition allOpen :: "nat \<Rightarrow> bool" where
  "allOpen ws = True"

text \<open>The game after \<open>"X"\<close> has opened with a piece into row 1 from the left.\<close>

definition firstMoveGame :: Game where
  "firstMoveGame =
     Playing \<lparr>row1 = \<lparr>left = [PieceX], right = []\<rparr>,
              row2 = emptyRow, row3 = emptyRow, row4 = emptyRow,
              row5 = emptyRow, row6 = emptyRow, row7 = emptyRow\<rparr> PieceO"

section \<open>The win detector returns, and what it returns\<close>

lemma chainPieces_step:
  "chainPieces g m c p chained =
     (if length chained = 4 then Some (Some chained)
      else if cellAt g (stepCoord m c) = Some p
           then chainPieces g m (stepCoord m c) p (chained @ [stepCoord m c])
           else Some None)"
  by (subst chainPieces.simps) (simp add: Let_def cellAt_def stepCoord_def split: option.splits)

lemma chainPieces_4:
  "chainPieces g m c p [c1, c2, c3, c4] = Some (Some [c1, c2, c3, c4])"
  by (subst chainPieces_step) simp

lemma chainPieces_3:
  "chainPieces g m c p [c1, c2, c3] =
     Some (if cellAt g (stepCoord m c) = Some p then Some [c1, c2, c3, stepCoord m c] else None)"
  by (subst chainPieces_step) (simp add: chainPieces_4)

lemma chainPieces_2:
  "chainPieces g m c p [c1, c2] =
     Some (if cellAt g (stepCoord m c) = Some p
            \<and> cellAt g (stepCoord m (stepCoord m c)) = Some p
           then Some [c1, c2, stepCoord m c, stepCoord m (stepCoord m c)] else None)"
  by (subst chainPieces_step) (simp add: chainPieces_3)

lemma chainPieces_start:
  "chainPieces g m c p [c] =
     Some (if cellAt g (stepCoord m c) = Some p
            \<and> cellAt g (stepCoord m (stepCoord m c)) = Some p
            \<and> cellAt g (stepCoord m (stepCoord m (stepCoord m c))) = Some p
           then Some [c, stepCoord m c, stepCoord m (stepCoord m c),
                      stepCoord m (stepCoord m (stepCoord m c))]
           else None)"
  by (subst chainPieces_step) (simp add: chainPieces_2)

lemma isSome_simps: "isSome None = False" "isSome (Some x) = True"
  by (simp_all add: isSome_def)

lemma findFirstMap_returns:
  assumes "\<forall>a\<in>set as. \<exists>r. f a = Some r"
  shows "\<exists>r. array_findFirstMap f as = Some r
           \<and> (isSome r \<longleftrightarrow> (\<exists>a\<in>set as. \<exists>b. f a = Some (Some b)))"
  using assms
proof (induction as)
  case Nil
  then show ?case by (simp add: isSome_simps)
next
  case (Cons a as)
  then obtain r where r: "f a = Some r" by auto
  show ?case
  proof (cases r)
    case None
    with r Cons show ?thesis by auto
  next
    case (Some b)
    with r show ?thesis by (simp add: isSome_simps)
  qed
qed

lemma set_filterMap: "set (array_filterMap f as) = {b. \<exists>a\<in>set as. f a = Some b}"
  by (induction as) (auto split: option.splits)

lemma set_comprehension:
  "set (array_comprehension is js f) = {c. \<exists>a\<in>set is. \<exists>b\<in>set js. c = f a b}"
  by (auto simp: array_comprehension_def)

lemma pair_bex:
  "(\<exists>a\<in>S. \<exists>b. (case a of (c, p) \<Rightarrow> h c p) = Some (Some b))
   \<longleftrightarrow> (\<exists>c p. (c, p) \<in> S \<and> (\<exists>b. h c p = Some (Some b)))"
  by force

lemma checkDirection_returns:
  "\<exists>r. checkDirection g m is js = Some r
       \<and> (isSome r \<longleftrightarrow>
            (\<exists>a\<in>set is. \<exists>b\<in>set js. startsRun g m \<lparr>coord_i = a, coord_j = b\<rparr>))"
proof -
  let ?f = "\<lambda>(coord, piece). chainPieces g m coord piece [coord]"
  let ?cs = "array_filterMap (\<lambda>coord. map_option (\<lambda>p. (coord, p)) (cellAt g coord))
               (array_comprehension is js (\<lambda>i j. \<lparr>coord_i = i, coord_j = j\<rparr>))"
  have cd: "checkDirection g m is js = array_findFirstMap ?f ?cs"
    by (simp add: checkDirection_def cellAt_def)
  have "\<forall>a\<in>set ?cs. \<exists>r. ?f a = Some r"
    by (auto simp: chainPieces_start)
  from findFirstMap_returns[OF this]
  obtain r where r: "array_findFirstMap ?f ?cs = Some r"
    and iff: "isSome r \<longleftrightarrow> (\<exists>a\<in>set ?cs. \<exists>b. ?f a = Some (Some b))"
    by blast
  have mem: "\<And>c p. (c, p) \<in> set ?cs \<longleftrightarrow>
      (\<exists>a\<in>set is. \<exists>b\<in>set js. c = \<lparr>coord_i = a, coord_j = b\<rparr>) \<and> cellAt g c = Some p"
    by (auto simp: set_filterMap set_comprehension)
  have run: "\<And>c p. cellAt g c = Some p \<Longrightarrow>
      (\<exists>b. chainPieces g m c p [c] = Some (Some b)) = startsRun g m c"
    by (simp add: chainPieces_start startsRun_def)
  have "(\<exists>a\<in>set ?cs. \<exists>b. ?f a = Some (Some b))
        \<longleftrightarrow> (\<exists>c p. (c, p) \<in> set ?cs \<and> (\<exists>b. chainPieces g m c p [c] = Some (Some b)))"
    by (rule pair_bex)
  also have "\<dots> \<longleftrightarrow> (\<exists>c p. ((\<exists>a\<in>set is. \<exists>b\<in>set js. c = \<lparr>coord_i = a, coord_j = b\<rparr>)
                      \<and> cellAt g c = Some p) \<and> startsRun g m c)"
    by (simp only: mem run cong: conj_cong)
  also have "\<dots> \<longleftrightarrow> (\<exists>a\<in>set is. \<exists>b\<in>set js. startsRun g m \<lparr>coord_i = a, coord_j = b\<rparr>)"
  proof
    assume "\<exists>c p. ((\<exists>a\<in>set is. \<exists>b\<in>set js. c = \<lparr>coord_i = a, coord_j = b\<rparr>)
                      \<and> cellAt g c = Some p) \<and> startsRun g m c"
    then show "\<exists>a\<in>set is. \<exists>b\<in>set js. startsRun g m \<lparr>coord_i = a, coord_j = b\<rparr>"
      by blast
  next
    assume "\<exists>a\<in>set is. \<exists>b\<in>set js. startsRun g m \<lparr>coord_i = a, coord_j = b\<rparr>"
    then obtain a b where ab: "a \<in> set is" "b \<in> set js"
      and sr: "startsRun g m \<lparr>coord_i = a, coord_j = b\<rparr>" by blast
    from sr obtain p where "cellAt g \<lparr>coord_i = a, coord_j = b\<rparr> = Some p"
      by (auto simp: startsRun_def split: option.splits)
    with ab sr show "\<exists>c p. ((\<exists>a\<in>set is. \<exists>b\<in>set js. c = \<lparr>coord_i = a, coord_j = b\<rparr>)
                      \<and> cellAt g c = Some p) \<and> startsRun g m c"
      by blast
  qed
  finally have "(\<exists>a\<in>set ?cs. \<exists>b. ?f a = Some (Some b))
        \<longleftrightarrow> (\<exists>a\<in>set is. \<exists>b\<in>set js. startsRun g m \<lparr>coord_i = a, coord_j = b\<rparr>)" .
  with r iff cd show ?thesis by simp
qed

lemma gridCell_cellAt:
  "gridCell g (i, j) = (if inGrid i j then cellAt g \<lparr>coord_i = i, coord_j = j\<rparr> else None)"
  by (auto simp: gridCell_def cellAt_def array_lookup_def inGrid_def Option.bind_def split: option.splits)

lemma startsRun_shift:
  "startsRun g \<lparr>movei = (\<lambda>i. i + di), movej = (\<lambda>j. j + dj)\<rparr> \<lparr>coord_i = a, coord_j = b\<rparr> \<longleftrightarrow>
     (\<exists>p. cellAt g \<lparr>coord_i = a, coord_j = b\<rparr> = Some p
        \<and> cellAt g \<lparr>coord_i = a + di, coord_j = b + dj\<rparr> = Some p
        \<and> cellAt g \<lparr>coord_i = a + di + di, coord_j = b + dj + dj\<rparr> = Some p
        \<and> cellAt g \<lparr>coord_i = a + di + di + di, coord_j = b + dj + dj + dj\<rparr> = Some p)"
  by (simp add: startsRun_def stepCoord_def split: option.splits)

lemma bex_Piece: "(\<exists>p\<in>{PieceX, PieceO}. P p) \<longleftrightarrow> (\<exists>p. P p)"
  by (metis Piece.exhaust insertCI)

lemma runOf_unfold:
  "runOf p g a b (di, dj) \<longleftrightarrow>
     gridCell g (a, b) = Some p
     \<and> gridCell g (a + di, b + dj) = Some p
     \<and> gridCell g (a + di + di, b + dj + dj) = Some p
     \<and> gridCell g (a + di + di + di, b + dj + dj + dj) = Some p"
  by (simp add: runOf_def fourCells_def algebra_simps)

lemma runFrom_unfold:
  "runFrom g (di, dj) a b \<longleftrightarrow>
     (\<exists>p. gridCell g (a, b) = Some p
        \<and> gridCell g (a + di, b + dj) = Some p
        \<and> gridCell g (a + di + di, b + dj + dj) = Some p
        \<and> gridCell g (a + di + di + di, b + dj + dj + dj) = Some p)"
  unfolding runFrom_def bex_Piece runOf_unfold ..

lemma if_None_eq_Some: "((if c then x else None) = Some p) = (c \<and> x = Some p)"
  by simp

lemma runFrom_pointwise:
  assumes ij: "inGrid i j"
    and rng: "inGrid (i + di) (j + dj) \<and> inGrid (i + di + di) (j + dj + dj)
              \<and> inGrid (i + di + di + di) (j + dj + dj + dj) \<longleftrightarrow> i \<in> A \<and> j \<in> B"
  shows "runFrom g (di, dj) i j \<longleftrightarrow>
         (i \<in> A \<and> j \<in> B)
         \<and> startsRun g \<lparr>movei = (\<lambda>i. i + di), movej = (\<lambda>j. j + dj)\<rparr> \<lparr>coord_i = i, coord_j = j\<rparr>"
  unfolding startsRun_shift runFrom_unfold gridCell_cellAt if_None_eq_Some rng[symmetric]
  using ij by blast

lemma direction_iff:
  assumes rng: "\<And>i j. inGrid i j \<Longrightarrow>
            (inGrid (i + di) (j + dj) \<and> inGrid (i + di + di) (j + dj + dj)
              \<and> inGrid (i + di + di + di) (j + dj + dj + dj) \<longleftrightarrow> i \<in> A \<and> j \<in> B)"
    and sub: "\<And>i j. i \<in> A \<Longrightarrow> j \<in> B \<Longrightarrow> inGrid i j"
  shows "(\<exists>a\<in>A. \<exists>b\<in>B.
            startsRun g \<lparr>movei = (\<lambda>i. i + di), movej = (\<lambda>j. j + dj)\<rparr> \<lparr>coord_i = a, coord_j = b\<rparr>)
         \<longleftrightarrow> (\<exists>i\<in>{0..6}. \<exists>j\<in>{0..6}. runFrom g (di, dj) i j)"
proof
  assume "\<exists>a\<in>A. \<exists>b\<in>B.
            startsRun g \<lparr>movei = (\<lambda>i. i + di), movej = (\<lambda>j. j + dj)\<rparr> \<lparr>coord_i = a, coord_j = b\<rparr>"
  then obtain a b where ab: "a \<in> A" "b \<in> B"
    and sr: "startsRun g \<lparr>movei = (\<lambda>i. i + di), movej = (\<lambda>j. j + dj)\<rparr> \<lparr>coord_i = a, coord_j = b\<rparr>"
    by blast
  from ab have ig: "inGrid a b" by (rule sub)
  from runFrom_pointwise[OF ig rng[OF ig]] ab sr have "runFrom g (di, dj) a b" by blast
  moreover from ig have "a \<in> {0..6}" "b \<in> {0..6}" by (auto simp: inGrid_def)
  ultimately show "\<exists>i\<in>{0..6}. \<exists>j\<in>{0..6}. runFrom g (di, dj) i j" by blast
next
  assume "\<exists>i\<in>{0..6}. \<exists>j\<in>{0..6}. runFrom g (di, dj) i j"
  then obtain i j where ij: "i \<in> {0..6}" "j \<in> {0..6}" and rf: "runFrom g (di, dj) i j"
    by blast
  from ij have ig: "inGrid i j" by (auto simp: inGrid_def)
  from runFrom_pointwise[OF ig rng[OF ig]] rf
  show "\<exists>a\<in>A. \<exists>b\<in>B.
            startsRun g \<lparr>movei = (\<lambda>i. i + di), movej = (\<lambda>j. j + dj)\<rparr> \<lparr>coord_i = a, coord_j = b\<rparr>"
    by blast
qed

lemma rows_iff:
  "(\<exists>a\<in>set (nea_range 0 6). \<exists>b\<in>set (nea_range 0 3).
      startsRun g \<lparr>movei = (\<lambda>i. i + 0), movej = (\<lambda>j. j + 1)\<rparr> \<lparr>coord_i = a, coord_j = b\<rparr>)
   \<longleftrightarrow> (\<exists>i\<in>{0..6}. \<exists>j\<in>{0..6}. runFrom g (0, 1) i j)"
  by (rule direction_iff) (auto simp: nea_range_def inGrid_def)

lemma columns_iff:
  "(\<exists>a\<in>set (nea_range 0 3). \<exists>b\<in>set (nea_range 0 6).
      startsRun g \<lparr>movei = (\<lambda>i. i + 1), movej = (\<lambda>j. j + 0)\<rparr> \<lparr>coord_i = a, coord_j = b\<rparr>)
   \<longleftrightarrow> (\<exists>i\<in>{0..6}. \<exists>j\<in>{0..6}. runFrom g (1, 0) i j)"
  by (rule direction_iff) (auto simp: nea_range_def inGrid_def)

lemma rightDiagonal_iff:
  "(\<exists>a\<in>set (nea_range 0 3). \<exists>b\<in>set (nea_range 0 3).
      startsRun g \<lparr>movei = (\<lambda>i. i + 1), movej = (\<lambda>j. j + 1)\<rparr> \<lparr>coord_i = a, coord_j = b\<rparr>)
   \<longleftrightarrow> (\<exists>i\<in>{0..6}. \<exists>j\<in>{0..6}. runFrom g (1, 1) i j)"
  by (rule direction_iff) (auto simp: nea_range_def inGrid_def)

lemma leftDiagonal_iff:
  "(\<exists>a\<in>set (nea_range 0 3). \<exists>b\<in>set (nea_range 3 6).
      startsRun g \<lparr>movei = (\<lambda>i. i + 1), movej = (\<lambda>j. j + (-1))\<rparr> \<lparr>coord_i = a, coord_j = b\<rparr>)
   \<longleftrightarrow> (\<exists>i\<in>{0..6}. \<exists>j\<in>{0..6}. runFrom g (1, -1) i j)"
  by (rule direction_iff) (auto simp: nea_range_def inGrid_def)

lemma fourInARow_runFrom:
  "fourInARow g \<longleftrightarrow>
     (\<exists>i\<in>{0..6}. \<exists>j\<in>{0..6}. runFrom g (0, 1) i j)
   \<or> (\<exists>i\<in>{0..6}. \<exists>j\<in>{0..6}. runFrom g (1, 0) i j)
   \<or> (\<exists>i\<in>{0..6}. \<exists>j\<in>{0..6}. runFrom g (1, 1) i j)
   \<or> (\<exists>i\<in>{0..6}. \<exists>j\<in>{0..6}. runFrom g (1, -1) i j)"
  unfolding fourInARow_def ownsFour_def runFrom_def directions_def
  by (simp only: list.set bex_simps) blast

lemma connectedFour_fourInARow: "connectedFour b = Some (fourInARow (toGrid b))"
proof -
  let ?g = "toGrid b"
  obtain r where r: "checkRows ?g = Some r"
    and r': "isSome r \<longleftrightarrow> (\<exists>i\<in>{0..6}. \<exists>j\<in>{0..6}. runFrom ?g (0, 1) i j)"
    using checkDirection_returns[of ?g "\<lparr>movei = (\<lambda>i. i), movej = (\<lambda>j. j + 1)\<rparr>"
            "nea_range 0 6" "nea_range 0 3"] rows_iff[of ?g]
    by (auto simp: checkRows_def)
  obtain c where c: "checkColumns ?g = Some c"
    and c': "isSome c \<longleftrightarrow> (\<exists>i\<in>{0..6}. \<exists>j\<in>{0..6}. runFrom ?g (1, 0) i j)"
    using checkDirection_returns[of ?g "\<lparr>movei = (\<lambda>i. i + 1), movej = (\<lambda>j. j)\<rparr>"
            "nea_range 0 3" "nea_range 0 6"] columns_iff[of ?g]
    by (auto simp: checkColumns_def)
  obtain d where d: "checkRightDiagonal ?g = Some d"
    and d': "isSome d \<longleftrightarrow> (\<exists>i\<in>{0..6}. \<exists>j\<in>{0..6}. runFrom ?g (1, 1) i j)"
    using checkDirection_returns[of ?g "\<lparr>movei = (\<lambda>i. i + 1), movej = (\<lambda>j. j + 1)\<rparr>"
            "nea_range 0 3" "nea_range 0 3"] rightDiagonal_iff[of ?g]
    by (auto simp: checkRightDiagonal_def)
  obtain l where l: "checkLeftDiagonal ?g = Some l"
    and l': "isSome l \<longleftrightarrow> (\<exists>i\<in>{0..6}. \<exists>j\<in>{0..6}. runFrom ?g (1, -1) i j)"
    using checkDirection_returns[of ?g "\<lparr>movei = (\<lambda>i. i + 1), movej = (\<lambda>j. j - 1)\<rparr>"
            "nea_range 0 3" "nea_range 3 6"] leftDiagonal_iff[of ?g]
    by (auto simp: checkLeftDiagonal_def)
  have "connectedFour b = Some (isSome r \<or> isSome c \<or> isSome d \<or> isSome l)"
    by (simp add: connectedFour_def Let_def r c d l)
  then show ?thesis
    by (simp only: r' c' d' l' fourInARow_runFrom)
qed


lemma interval7: "{0..6::int} = {0, 1, 2, 3, 4, 5, 6}" by auto

lemmas grid_eval = toGrid_def rowIndexes_def emptyRow_def numPieces_def MaxRowPieces_def array_replicate_def
      fourInARow_def ownsFour_def runOf_def fourCells_def directions_def gridCell_def interval7 eval_nat_numeral

lemma advance_eval:
  "advance (Playing b pp) pp mv =
     (case addPiece pp (side mv) (getRow b (row mv)) of
        Inl e \<Rightarrow> Some (Inl (RowFull e))
      | Inr newRow \<Rightarrow>
          Some (Inr (if fourInARow (toGrid (setRow b (row mv) newRow))
                     then Over (setRow b (row mv) newRow) pp
                     else Playing (setRow b (row mv) newRow) (nextPiece pp))))"
  by (simp add: advance_def connectedFour_fourInARow Let_def split: sum.splits)

section \<open>Claims about the game engine\<close>

text \<open>
  C1.  The win detector returns, and it returns true exactly when four consecutive
  cells of the 7x7 grid rendered from the board, in one of the four directions
  (rightward along a row, downward along a column, down-right, down-left), all
  hold the same piece.  A board whose longest run has three pieces reports no win.
\<close>

theorem connectedFour_iff_run_of_four:
  "connectedFour b =
     Some (\<exists>p\<in>{PieceX, PieceO}. \<exists>i\<in>{0..6}. \<exists>j\<in>{0..6}. \<exists>d\<in>set directions.
             \<forall>c\<in>set (fourCells i j d). gridCell (toGrid b) c = Some p)"
  by (simp only: connectedFour_fourInARow fourInARow_def ownsFour_def runOf_def)

text \<open>Three in a row report no win, four in a row report a win.\<close>

theorem connectedFour_iff_run_of_four_witness:
  "connectedFour threeBoard = Some False \<and> connectedFour fourBoard = Some True"
  using connectedFour_iff_run_of_four[of threeBoard] connectedFour_iff_run_of_four[of fourBoard]
  by (simp add: threeBoard_def fourBoard_def grid_eval)

lemma getRow_setRow: "getRow (setRow b r newRow) r' = (if r' = r then newRow else getRow b r')"
  by (cases r; cases r'; simp)

text \<open>
  C3.  When the moving piece is the game's playing piece and the insertion into
  the target row succeeds, \<open>advance\<close> returns a game whose board is the old board
  with the target row replaced by the inserted row and the other six rows
  unchanged.  The game is \<open>Over\<close> with the moving piece as winner if the win
  detector fires on the new board, and otherwise \<open>Playing\<close> with the other piece
  to move: \<open>"O"\<close> after \<open>"X"\<close> and \<open>"X"\<close> after \<open>"O"\<close>, never the piece that just
  moved.
\<close>

theorem advance_replaces_one_row:
  assumes "addPiece pp (side mv) (getRow b (row mv)) = Inr newRow"
  shows "\<exists>g'. advance (Playing b pp) pp mv = Some (Inr g')
          \<and> board g' = setRow b (row mv) newRow
          \<and> getRow (board g') (row mv) = newRow
          \<and> (\<forall>r. r \<noteq> row mv \<longrightarrow> getRow (board g') r = getRow b r)
          \<and> (connectedFour (board g') = Some True \<longrightarrow> g' = Over (board g') pp)
          \<and> (connectedFour (board g') = Some False \<longrightarrow>
                g' = Playing (board g') (if pp = PieceX then PieceO else PieceX)
                \<and> playingPiece g' \<noteq> pp)
          \<and> (connectedFour (board g') = Some True \<or> connectedFour (board g') = Some False)"
  using assms
  by (cases pp) (auto simp: advance_eval connectedFour_fourInARow getRow_setRow)

text \<open>
  The first move of a game, by \<open>"X"\<close> into row 3 from the right; the reply of
  \<open>"O"\<close> into row 1 from the right; and the fourth piece of \<open>"X"\<close> in row 1,
  which ends the game.
\<close>

theorem advance_replaces_one_row_witness:
  "advance initGame PieceX \<lparr>row = Row3, side = RightSide\<rparr>
     = Some (Inr (Playing (setRow (board initGame) Row3 \<lparr>left = [], right = [PieceX]\<rparr>) PieceO))
   \<and> advance firstMoveGame PieceO \<lparr>row = Row1, side = RightSide\<rparr>
     = Some (Inr (Playing (setRow (board firstMoveGame) Row1 \<lparr>left = [PieceX], right = [PieceO]\<rparr>)
                    PieceX))
   \<and> advance (Playing threeBoard PieceX) PieceX \<lparr>row = Row1, side = LeftSide\<rparr>
     = Some (Inr (Over fourBoard PieceX))
   \<and> getRow fourBoard Row2 = getRow threeBoard Row2"
proof -
  have a1: "addPiece PieceX (side \<lparr>row = Row3, side = RightSide\<rparr>)
             (getRow (board initGame) (row \<lparr>row = Row3, side = RightSide\<rparr>))
           = Inr \<lparr>left = [], right = [PieceX]\<rparr>"
    by (simp add: initGame_def addPiece_def emptyRow_def numPieces_def MaxRowPieces_def)
  have f1: "connectedFour (setRow (board initGame) Row3 \<lparr>left = [], right = [PieceX]\<rparr>) = Some False"
    by (simp add: connectedFour_fourInARow initGame_def grid_eval)
  have a2: "addPiece PieceO (side \<lparr>row = Row1, side = RightSide\<rparr>)
             (getRow (board firstMoveGame) (row \<lparr>row = Row1, side = RightSide\<rparr>))
           = Inr \<lparr>left = [PieceX], right = [PieceO]\<rparr>"
    by (simp add: firstMoveGame_def addPiece_def numPieces_def MaxRowPieces_def)
  have f2: "connectedFour (setRow (board firstMoveGame) Row1 \<lparr>left = [PieceX], right = [PieceO]\<rparr>)
            = Some False"
    by (simp add: connectedFour_fourInARow firstMoveGame_def grid_eval)
  have a3: "addPiece PieceX (side \<lparr>row = Row1, side = LeftSide\<rparr>)
             (getRow threeBoard (row \<lparr>row = Row1, side = LeftSide\<rparr>))
           = Inr \<lparr>left = [PieceX, PieceX, PieceX, PieceX], right = []\<rparr>"
    by (simp add: threeBoard_def addPiece_def numPieces_def MaxRowPieces_def)
  have b3: "threeBoard\<lparr>row1 := \<lparr>left = [PieceX, PieceX, PieceX, PieceX], right = []\<rparr>\<rparr> = fourBoard"
    by (simp add: fourBoard_def)
  have f3: "connectedFour fourBoard = Some True"
    by (simp add: connectedFour_fourInARow fourBoard_def threeBoard_def grid_eval)
  have 1: "advance initGame PieceX \<lparr>row = Row3, side = RightSide\<rparr>
     = Some (Inr (Playing (setRow (board initGame) Row3 \<lparr>left = [], right = [PieceX]\<rparr>) PieceO))"
    using advance_replaces_one_row[of PieceX "\<lparr>row = Row3, side = RightSide\<rparr>" "board initGame", OF a1] f1
    by (auto simp: initGame_def)
  have 2: "advance firstMoveGame PieceO \<lparr>row = Row1, side = RightSide\<rparr>
     = Some (Inr (Playing (setRow (board firstMoveGame) Row1 \<lparr>left = [PieceX], right = [PieceO]\<rparr>)
                    PieceX))"
    using advance_replaces_one_row[of PieceO "\<lparr>row = Row1, side = RightSide\<rparr>" "board firstMoveGame",
            OF a2] f2
    by (auto simp: firstMoveGame_def)
  have 3: "advance (Playing threeBoard PieceX) PieceX \<lparr>row = Row1, side = LeftSide\<rparr>
     = Some (Inr (Over fourBoard PieceX))
     \<and> getRow fourBoard Row2 = getRow threeBoard Row2"
  proof -
    from advance_replaces_one_row[of PieceX "\<lparr>row = Row1, side = LeftSide\<rparr>" threeBoard, OF a3]
    obtain g' where adv: "advance (Playing threeBoard PieceX) PieceX \<lparr>row = Row1, side = LeftSide\<rparr>
                            = Some (Inr g')"
      and bd: "board g' = fourBoard"
      and others: "\<forall>r. r \<noteq> Row1 \<longrightarrow> getRow (board g') r = getRow threeBoard r"
      and over: "connectedFour (board g') = Some True \<longrightarrow> g' = Over (board g') PieceX"
      by (auto simp: b3)
    from over bd f3 have "g' = Over fourBoard PieceX" by simp
    moreover from others bd have "getRow fourBoard Row2 = getRow threeBoard Row2" by auto
    ultimately show ?thesis using adv by simp
  qed
  from 1 2 3 show ?thesis by simp
qed

text \<open>
  C4.  \<open>advance\<close> fails in exactly three cases.  On an \<open>Over\<close> game it fails with
  \<open>GameOverError\<close>; on a \<open>Playing\<close> game and a piece other than the playing piece
  it fails with \<open>IncorrectPieceError\<close> carrying the expected and the actual piece;
  on a \<open>Playing\<close> game, the playing piece and a target row at capacity it fails
  with the \<open>RowFullError\<close> of the insertion.  In the remaining case it succeeds,
  so that it fails if and only if the game is \<open>Over\<close>, or the piece is not the
  playing piece, or the target row is at capacity.
  A failure is an error value only: the game passed in is a value that no call
  changes, and no other game is returned.
\<close>

theorem advance_fails_exactly:
  "advance (Over b w) p mv = Some (Inl GameOverError)
   \<and> (p \<noteq> pp \<longrightarrow> advance (Playing b pp) p mv = Some (Inl (IncorrectPieceError pp p)))
   \<and> (MaxRowPieces \<le> numPieces (getRow b (row mv)) \<longrightarrow>
        advance (Playing b pp) pp mv = Some (Inl (RowFull RowFullError)))
   \<and> (numPieces (getRow b (row mv)) < MaxRowPieces \<longrightarrow>
        (\<exists>g'. advance (Playing b pp) pp mv = Some (Inr g')))
   \<and> ((\<exists>e. advance g p mv = Some (Inl e)) \<longleftrightarrow>
        (case g of
           Over _ _ \<Rightarrow> True
         | Playing gb gp \<Rightarrow> p \<noteq> gp \<or> MaxRowPieces \<le> numPieces (getRow gb (row mv))))"
proof -
  have 1: "advance (Over b w) p mv = Some (Inl GameOverError)"
    by (simp add: advance_def)
  have 2: "p \<noteq> pp \<longrightarrow> advance (Playing b pp) p mv = Some (Inl (IncorrectPieceError pp p))"
    by (simp add: advance_def)
  have 3: "MaxRowPieces \<le> numPieces (getRow b (row mv)) \<longrightarrow>
        advance (Playing b pp) pp mv = Some (Inl (RowFull RowFullError))"
    by (auto simp: advance_eval addPiece_def split: RowSide.splits)
  have 4: "numPieces (getRow b (row mv)) < MaxRowPieces \<longrightarrow>
        (\<exists>g'. advance (Playing b pp) pp mv = Some (Inr g'))"
    by (auto simp: advance_eval addPiece_def split: RowSide.splits)
  have 5: "(\<exists>e. advance g p mv = Some (Inl e)) \<longleftrightarrow>
        (case g of
           Over _ _ \<Rightarrow> True
         | Playing gb gp \<Rightarrow> p \<noteq> gp \<or> MaxRowPieces \<le> numPieces (getRow gb (row mv)))"
  proof (cases g)
    case (Over gb gw)
    then show ?thesis by (simp add: advance_def)
  next
    case (Playing gb gp)
    show ?thesis
    proof (cases "p = gp")
      case False
      with Playing show ?thesis by (simp add: advance_def)
    next
      case True
      with Playing show ?thesis
        by (auto simp: advance_eval addPiece_def split: RowSide.splits)
    qed
  qed
  from 1 2 3 4 5 show ?thesis by blast
qed

text \<open>One game for each of the four cases.\<close>

theorem advance_fails_exactly_witness:
  "advance (Over threeBoard PieceX) PieceO \<lparr>row = Row1, side = LeftSide\<rparr> = Some (Inl GameOverError)
   \<and> advance (Playing threeBoard PieceX) PieceO \<lparr>row = Row1, side = LeftSide\<rparr>
       = Some (Inl (IncorrectPieceError PieceX PieceO))
   \<and> advance (Playing fullRowBoard PieceX) PieceX \<lparr>row = Row1, side = RightSide\<rparr>
       = Some (Inl (RowFull RowFullError))
   \<and> (\<exists>g'. advance (Playing fullRowBoard PieceX) PieceX \<lparr>row = Row2, side = RightSide\<rparr> = Some (Inr g'))"
  using advance_fails_exactly[where b = threeBoard and w = PieceX and p = PieceO
          and mv = "\<lparr>row = Row1, side = LeftSide\<rparr>" and pp = PieceX]
    advance_fails_exactly[where b = fullRowBoard and w = PieceX and p = PieceO
          and mv = "\<lparr>row = Row1, side = RightSide\<rparr>" and pp = PieceX]
    advance_fails_exactly[where b = fullRowBoard and w = PieceX and p = PieceO
          and mv = "\<lparr>row = Row2, side = RightSide\<rparr>" and pp = PieceX]
  by (simp add: threeBoard_def fullRowBoard_def emptyRow_def numPieces_def MaxRowPieces_def)


section \<open>Claims about rows and the grid\<close>

lemma addPiece_numPieces: "addPiece p s r = Inr r' \<Longrightarrow> numPieces r' = Suc (numPieces r)"
  by (auto simp: addPiece_def numPieces_def split: RowSide.splits if_splits)

lemma addPiece_fails_iff: "addPiece p s r = Inl RowFullError \<longleftrightarrow> MaxRowPieces \<le> numPieces r"
  by (auto simp: addPiece_def split: RowSide.splits)

lemma addPiece_succeeds_iff: "(\<exists>r'. addPiece p s r = Inr r') \<longleftrightarrow> numPieces r < MaxRowPieces"
  by (auto simp: addPiece_def split: RowSide.splits)

lemma insertAll_succeeds:
  "numPieces r + length ms \<le> MaxRowPieces \<Longrightarrow>
     \<exists>r'. insertAll ms r = Inr r' \<and> numPieces r' = numPieces r + length ms"
proof (induction ms arbitrary: r)
  case Nil
  then show ?case by simp
next
  case (Cons m ms)
  obtain p s where m: "m = (p, s)" by (cases m)
  from Cons.prems have "numPieces r < MaxRowPieces" by simp
  then obtain r1 where r1: "addPiece p s r = Inr r1"
    using addPiece_succeeds_iff by blast
  then have n1: "numPieces r1 = Suc (numPieces r)" by (rule addPiece_numPieces)
  with Cons.prems have "numPieces r1 + length ms \<le> MaxRowPieces" by simp
  from Cons.IH[OF this] n1 r1 m show ?case by simp
qed

lemma insertAll_append:
  "insertAll (ms @ ns) r = (case insertAll ms r of Inl e \<Rightarrow> Inl e | Inr r' \<Rightarrow> insertAll ns r')"
  by (induction ms arbitrary: r) (auto split: sum.splits)

text \<open>
  C5.  An insertion fails, with \<open>RowFullError\<close>, exactly when the row already
  holds seven pieces over both sides (seven or more, which for a row within
  capacity is seven).  Starting from an empty row, any sequence of up to seven
  insertions from either side succeeds and leaves as many pieces as were inserted,
  and any eighth insertion fails with \<open>RowFullError\<close>.
\<close>

theorem row_capacity_seven:
  "(addPiece p s r = Inl RowFullError \<longleftrightarrow> MaxRowPieces \<le> numPieces r)
   \<and> (numPieces r \<le> MaxRowPieces \<longrightarrow> (addPiece p s r = Inl RowFullError \<longleftrightarrow> numPieces r = 7))
   \<and> (length ms \<le> 7 \<longrightarrow> (\<exists>r'. insertAll ms emptyRow = Inr r' \<and> numPieces r' = length ms))
   \<and> (length ms = 7 \<longrightarrow> insertAll (ms @ [(q, t)]) emptyRow = Inl RowFullError)"
proof -
  have e: "numPieces emptyRow = 0" by (simp add: emptyRow_def numPieces_def)
  have a: "length ms \<le> 7 \<longrightarrow> (\<exists>r'. insertAll ms emptyRow = Inr r' \<and> numPieces r' = length ms)"
    using insertAll_succeeds[of emptyRow ms] e by (simp add: MaxRowPieces_def)
  have b: "length ms = 7 \<longrightarrow> insertAll (ms @ [(q, t)]) emptyRow = Inl RowFullError"
  proof
    assume l: "length ms = 7"
    with a obtain r' where r': "insertAll ms emptyRow = Inr r'" "numPieces r' = 7" by auto
    then have "addPiece q t r' = Inl RowFullError"
      by (simp add: addPiece_fails_iff MaxRowPieces_def)
    with r' show "insertAll (ms @ [(q, t)]) emptyRow = Inl RowFullError"
      by (simp add: insertAll_append)
  qed
  show ?thesis
    using a b by (auto simp: addPiece_fails_iff MaxRowPieces_def)
qed

text \<open>Eight alternating insertions: seven succeed, the eighth fails.\<close>

theorem row_capacity_seven_witness:
  "(\<exists>r'. insertAll (butlast eightInsertions) emptyRow = Inr r' \<and> numPieces r' = 7)
   \<and> insertAll eightInsertions emptyRow = Inl RowFullError
   \<and> addPiece PieceX LeftSide \<lparr>left = [PieceX, PieceO, PieceX, PieceO], right = [PieceX, PieceO, PieceX]\<rparr>
       = Inl RowFullError"
proof -
  have l: "length (butlast eightInsertions) = 7"
    by (simp add: eightInsertions_def)
  have e: "butlast eightInsertions @ [(PieceO, RightSide)] = eightInsertions"
    by (simp add: eightInsertions_def)
  have n: "numPieces \<lparr>left = [PieceX, PieceO, PieceX, PieceO], right = [PieceX, PieceO, PieceX]\<rparr> = 7"
    by (simp add: numPieces_def)
  from row_capacity_seven[of PieceX LeftSide
          "\<lparr>left = [PieceX, PieceO, PieceX, PieceO], right = [PieceX, PieceO, PieceX]\<rparr>"
          "butlast eightInsertions" PieceO RightSide]
  show ?thesis
    unfolding l e n by (simp add: MaxRowPieces_def)
qed

lemma toGrid_nth: "toGrid b ! rowPosition ri = renderRow (getRow b ri)"
  by (cases ri) (simp_all add: toGrid_def rowIndexes_def renderRow_def)

lemma renderRow_within:
  assumes "numPieces r \<le> MaxRowPieces"
  shows "renderRow r = map Some (left r) @ replicate (7 - length (left r) - length (right r)) None
                       @ map Some (right r)"
proof -
  have "array_replicate (int MaxRowPieces - int (numPieces r)) (None :: Piece option)
        = replicate (7 - length (left r) - length (right r)) None"
    using assms by (auto simp: array_replicate_def MaxRowPieces_def numPieces_def nat_diff_distrib)
  then show ?thesis by (simp add: renderRow_def)
qed

text \<open>
  C6.  An insertion into a row that is not full succeeds, and its result is the
  row with the new piece in front of the left sequence (newest first) for an
  insertion from the left, and at the end of the right sequence (oldest first)
  for an insertion from the right, the other sequence staying as it is; every
  successful insertion has this result.  For a board within capacity the grid
  has seven rows of seven cells, and the row of the grid holds the left sequence
  in stored order in its first columns, the right sequence in stored order in
  its last columns, and empty cells in between.
\<close>

theorem insertion_order_and_grid:
  "(numPieces r < MaxRowPieces \<longrightarrow>
      addPiece p LeftSide r = Inr \<lparr>left = p # left r, right = right r\<rparr>
      \<and> addPiece p RightSide r = Inr \<lparr>left = left r, right = right r @ [p]\<rparr>)
   \<and> (addPiece p LeftSide r = Inr rl \<longrightarrow> left rl = p # left r \<and> right rl = right r)
   \<and> (addPiece p RightSide r = Inr rr \<longrightarrow> right rr = right r @ [p] \<and> left rr = left r)
   \<and> (withinCapacity b \<longrightarrow>
        length (toGrid b) = 7
        \<and> (\<forall>ri. length (toGrid b ! rowPosition ri) = 7
              \<and> (\<forall>c < length (left (getRow b ri)).
                    toGrid b ! rowPosition ri ! c = Some (left (getRow b ri) ! c))
              \<and> (\<forall>c. length (left (getRow b ri)) \<le> c \<and> c < 7 - length (right (getRow b ri)) \<longrightarrow>
                    toGrid b ! rowPosition ri ! c = None)
              \<and> (\<forall>c < length (right (getRow b ri)).
                    toGrid b ! rowPosition ri ! (7 - length (right (getRow b ri)) + c)
                      = Some (right (getRow b ri) ! c))))"
proof -
  have pin: "numPieces r < MaxRowPieces \<longrightarrow>
      addPiece p LeftSide r = Inr \<lparr>left = p # left r, right = right r\<rparr>
      \<and> addPiece p RightSide r = Inr \<lparr>left = left r, right = right r @ [p]\<rparr>"
    by (simp add: addPiece_def)
  have ins: "(addPiece p LeftSide r = Inr rl \<longrightarrow> left rl = p # left r \<and> right rl = right r)
     \<and> (addPiece p RightSide r = Inr rr \<longrightarrow> right rr = right r @ [p] \<and> left rr = left r)"
    by (auto simp: addPiece_def split: if_splits)
  have len: "length (toGrid b) = 7" by (simp add: toGrid_def rowIndexes_def)
  have rows: "length (toGrid b ! rowPosition ri) = 7
        \<and> (\<forall>c < length (left (getRow b ri)).
              toGrid b ! rowPosition ri ! c = Some (left (getRow b ri) ! c))
        \<and> (\<forall>c. length (left (getRow b ri)) \<le> c \<and> c < 7 - length (right (getRow b ri)) \<longrightarrow>
              toGrid b ! rowPosition ri ! c = None)
        \<and> (\<forall>c < length (right (getRow b ri)).
              toGrid b ! rowPosition ri ! (7 - length (right (getRow b ri)) + c)
                = Some (right (getRow b ri) ! c))" if wc: "withinCapacity b" for ri
  proof -
    let ?r = "getRow b ri"
    have "ri \<in> set rowIndexes" by (cases ri) (simp_all add: rowIndexes_def)
    with wc have cap: "numPieces ?r \<le> MaxRowPieces" by (simp add: withinCapacity_def)
    then have n: "length (left ?r) + length (right ?r) \<le> 7"
      by (simp add: numPieces_def MaxRowPieces_def)
    note rr = renderRow_within[OF cap]
    have 1: "length (renderRow ?r) = 7" using n by (simp add: rr)
    have 2: "\<forall>c < length (left ?r). renderRow ?r ! c = Some (left ?r ! c)"
      by (simp add: rr nth_append)
    have 3: "\<forall>c. length (left ?r) \<le> c \<and> c < 7 - length (right ?r) \<longrightarrow> renderRow ?r ! c = None"
      using n by (auto simp: rr nth_append)
    have 4: "\<forall>c < length (right ?r). renderRow ?r ! (7 - length (right ?r) + c) = Some (right ?r ! c)"
      using n by (auto simp: rr nth_append)
    from 1 2 3 4 show ?thesis by (simp only: toGrid_nth)
  qed
  from pin ins len rows show ?thesis by blast
qed

text \<open>
  A piece inserted from either side into a row with one piece at each end, and
  row 7 of a board with one piece at each end of that row.
\<close>

theorem insertion_order_and_grid_witness:
  "addPiece PieceX LeftSide \<lparr>left = [PieceO], right = [PieceO]\<rparr>
     = Inr \<lparr>left = [PieceX, PieceO], right = [PieceO]\<rparr>
   \<and> addPiece PieceX RightSide \<lparr>left = [PieceO], right = [PieceO]\<rparr>
     = Inr \<lparr>left = [PieceO], right = [PieceO, PieceX]\<rparr>
   \<and> withinCapacity pushBoardBefore
   \<and> length (toGrid pushBoardBefore) = 7
   \<and> length (toGrid pushBoardBefore ! 6) = 7
   \<and> toGrid pushBoardBefore ! 6 ! 0 = Some PieceX
   \<and> toGrid pushBoardBefore ! 6 ! 3 = None
   \<and> toGrid pushBoardBefore ! 6 ! 6 = Some PieceX"
proof -
  have wc: "withinCapacity pushBoardBefore"
    by (simp add: withinCapacity_def rowIndexes_def pushBoardBefore_def numPieces_def MaxRowPieces_def)
  have n: "numPieces \<lparr>left = [PieceO], right = [PieceO]\<rparr> < MaxRowPieces"
    by (simp add: numPieces_def MaxRowPieces_def)
  have l: "left (getRow pushBoardBefore Row7) = [PieceX]" "right (getRow pushBoardBefore Row7) = [PieceX]"
    by (simp_all add: pushBoardBefore_def)
  note t = insertion_order_and_grid[where b = pushBoardBefore and p = PieceX
             and r = "\<lparr>left = [PieceO], right = [PieceO]\<rparr>"
             and rl = "\<lparr>left = [PieceX, PieceO], right = [PieceO]\<rparr>"
             and rr = "\<lparr>left = [PieceO], right = [PieceO, PieceX]\<rparr>"]
  from t n have ins:
    "addPiece PieceX LeftSide \<lparr>left = [PieceO], right = [PieceO]\<rparr>
       = Inr \<lparr>left = [PieceX, PieceO], right = [PieceO]\<rparr>
     \<and> addPiece PieceX RightSide \<lparr>left = [PieceO], right = [PieceO]\<rparr>
       = Inr \<lparr>left = [PieceO], right = [PieceO, PieceX]\<rparr>"
    by simp
  from t wc have
    "length (toGrid pushBoardBefore ! rowPosition Row7) = 7
      \<and> (\<forall>c < length (left (getRow pushBoardBefore Row7)).
            toGrid pushBoardBefore ! rowPosition Row7 ! c = Some (left (getRow pushBoardBefore Row7) ! c))
      \<and> (\<forall>c. length (left (getRow pushBoardBefore Row7)) \<le> c
               \<and> c < 7 - length (right (getRow pushBoardBefore Row7)) \<longrightarrow>
            toGrid pushBoardBefore ! rowPosition Row7 ! c = None)
      \<and> (\<forall>c < length (right (getRow pushBoardBefore Row7)).
            toGrid pushBoardBefore ! rowPosition Row7 ! (7 - length (right (getRow pushBoardBefore Row7)) + c)
              = Some (right (getRow pushBoardBefore Row7) ! c))"
    by blast
  then have "length (toGrid pushBoardBefore ! 6) = 7
      \<and> toGrid pushBoardBefore ! 6 ! 0 = Some PieceX
      \<and> toGrid pushBoardBefore ! 6 ! 3 = None
      \<and> toGrid pushBoardBefore ! 6 ! 6 = Some PieceX"
    unfolding l by simp
  with t wc ins show ?thesis by simp
qed


section \<open>Claims about the session state machine\<close>

text \<open>
  C7.  The matchmaking sequence.  \<open>PlayerJoined\<close> on \<open>Empty\<close> yields
  \<open>WaitingForOpponent\<close> with that peer as player X and, first among the effects,
  the notification of its piece X.  \<open>PlayerJoined\<close> on \<open>WaitingForOpponent\<close> yields
  \<open>Ready\<close> and the effects notifying the new peer of piece O and then, in that
  order, requesting the creation of a game.  \<open>GameStarted\<close> with the initial game
  and an id on \<open>Ready\<close> yields \<open>Started\<close> holding that game and id, with the effects
  subscribing both peers and broadcasting a \<open>GameUpdate\<close>, which reaches both
  peers when their sockets are open.
\<close>

theorem matchmaking_sequence:
  "update P F (PlayerJoined p1) (Empty d)
     = Some (WaitingForOpponent p1 d,
             [send (Connected PieceX) p1,
              logDebug ''First player joined. Waiting for the second player...''])
   \<and> update P F (PlayerJoined p2) (WaitingForOpponent p1 d)
     = Some (Ready p1 p2 d,
             [send (Connected PieceO) p2,
              startGame,
              logDebug ''Second player joined. Starting game...''])
   \<and> update P F (GameStarted initGame gid) (Ready p1 p2 d)
     = Some (Started p1 p2 initGame gid d,
             [subscribe PieceX p1, subscribe PieceO p2, broadcast (GameUpdate initGame)])
   \<and> (isOpen p1 \<longrightarrow>
        sentBy isOpen [send (Connected PieceX) p1,
                       logDebug ''First player joined. Waiting for the second player...'']
          (WaitingForOpponent p1 d) = [(p1, Connected PieceX)])
   \<and> (isOpen p2 \<longrightarrow>
        sentBy isOpen [send (Connected PieceO) p2, startGame,
                       logDebug ''Second player joined. Starting game...'']
          (Ready p1 p2 d) = [(p2, Connected PieceO)])
   \<and> (isOpen p1 \<and> isOpen p2 \<longrightarrow>
        sentBy isOpen [subscribe PieceX p1, subscribe PieceO p2, broadcast (GameUpdate initGame)]
          (Started p1 p2 initGame gid d) = [(p1, GameUpdate initGame), (p2, GameUpdate initGame)])"
  by (simp add: update_def join_def sentBy_def)

text \<open>Peers 1 and 2 join in turn and game 1 is started.\<close>

theorem matchmaking_sequence_witness:
  "update sampleParse sampleFailure (PlayerJoined (1::nat)) (Empty (0::nat))
     = Some (WaitingForOpponent 1 0,
             [send (Connected PieceX) 1,
              logDebug ''First player joined. Waiting for the second player...''])
   \<and> update sampleParse sampleFailure (PlayerJoined (2::nat)) (WaitingForOpponent 1 (0::nat))
     = Some (Ready 1 2 0,
             [send (Connected PieceO) 2, startGame,
              logDebug ''Second player joined. Starting game...''])
   \<and> update sampleParse sampleFailure (GameStarted initGame 1) (Ready (1::nat) 2 (0::nat))
     = Some (Started 1 2 initGame 1 0,
             [subscribe PieceX 1, subscribe PieceO 2, broadcast (GameUpdate initGame)])
   \<and> sentBy allOpen [subscribe PieceX 1, subscribe PieceO 2, broadcast (GameUpdate initGame)]
          (Started 1 2 initGame 1 (0::nat)) = [(1, GameUpdate initGame), (2, GameUpdate initGame)]"
  using matchmaking_sequence[where P = sampleParse and F = sampleFailure and ?p1.0 = "1::nat"
          and ?p2.0 = "2::nat" and d = "0::nat" and gid = 1 and isOpen = allOpen]
  by (simp add: allOpen_def)

text \<open>
  C8, as the code has it.  On \<open>PlayerLeft\<close> a \<open>Started\<close> state becomes \<open>Empty\<close> with
  two effects, in this order: a debug log entry, and the notification
  \<open>OpponentLeft\<close> of the other peer, the one that did not leave.  Running them
  sends that one message, to that peer, if its socket is open.  From a state
  that is not \<open>Started\<close>, \<open>PlayerLeft\<close> yields \<open>Empty\<close> and no effect at all.
\<close>

theorem player_left_effects:
  "update P F (PlayerLeft pc) (Started px po g gid d)
     = Some (Empty d,
             [logDebug (''Player '' @ showPiece pc @ '' left the game''),
              send OpponentLeft (if pc = PieceX then po else px)])
   \<and> sentBy isOpen [logDebug (''Player '' @ showPiece pc @ '' left the game''),
                     send OpponentLeft (if pc = PieceX then po else px)] (Empty d)
       = (if isOpen (if pc = PieceX then po else px)
          then [(if pc = PieceX then po else px, OpponentLeft)] else [])
   \<and> (\<not> isStarted st \<longrightarrow> update P F (PlayerLeft pc) st = Some (Empty (db st), []))"
  by (cases st) (simp_all add: update_def sentBy_def)

text \<open>Player O leaves a started game, and a game that is only ready.\<close>

theorem player_left_effects_witness:
  "update sampleParse sampleFailure (PlayerLeft PieceO) (Started (1::nat) 2 initGame 7 (0::nat))
     = Some (Empty 0, [logDebug ''Player O left the game'', send OpponentLeft 1])
   \<and> sentBy allOpen [logDebug ''Player O left the game'', send OpponentLeft 1] (Empty (0::nat))
       = [(1, OpponentLeft)]
   \<and> update sampleParse sampleFailure (PlayerLeft PieceO) (Ready (1::nat) 2 (0::nat)) = Some (Empty 0, [])"
  using player_left_effects[where P = sampleParse and F = sampleFailure and pc = PieceO
          and px = "1::nat" and po = "2::nat" and g = initGame and gid = 7 and d = "0::nat"
          and isOpen = allOpen and st = "Ready (1::nat) 2 (0::nat)"]
  by (simp add: allOpen_def)

text \<open>
  Player X leaves a started game: the transition has two effects, not exactly one.
\<close>

theorem player_left_two_effects:
  "update sampleParse sampleFailure (PlayerLeft PieceX) (Started (1::nat) 2 initGame 7 (0::nat))
     = Some (Empty 0, [logDebug ''Player X left the game'', send OpponentLeft 2])
   \<and> length [logDebug ''Player X left the game'', send OpponentLeft (2::nat)] \<noteq> 1"
  by (simp add: update_def)

lemma advance_returns: "\<exists>r. advance g p mv = Some r"
  by (cases g) (auto simp: advance_def connectedFour_fourInARow Let_def split: sum.splits)

lemma join_db: "join ws st = Inr (st', effs) \<Longrightarrow> db st' = db st"
  by (cases st) (auto simp: join_def)

lemma move_returns: "\<exists>r. move pc st mv = Some r"
  using advance_returns[of "game st" pc mv]
  by (cases st) (auto simp: move_def split: sum.splits)

lemma move_db: "move pc st mv = Some (Inr (st', effs)) \<Longrightarrow> db st' = db st"
  using advance_returns[of "game st" pc mv]
  by (cases st) (auto simp: move_def split: sum.splits)

text \<open>
  C10.  For every action and every state, \<open>update\<close> returns, and the state it
  returns carries the database handle of the state it was given.
\<close>

theorem update_keeps_db:
  "\<exists>st' effs. update P F a st = Some (st', effs) \<and> db st' = db st"
proof (cases a)
  case (PlayerJoined ws)
  then show ?thesis
    by (cases "join ws st") (auto simp: update_def dest: join_db)
next
  case (PlayerLeft pc)
  then show ?thesis by (cases st) (simp_all add: update_def)
next
  case (GameStarted g gid)
  then show ?thesis by (cases st) (simp_all add: update_def)
next
  case (MessageReceived pc payload)
  show ?thesis
  proof (cases "parseJson P payload")
    case (Inl e)
    with MessageReceived show ?thesis by (simp add: update_def)
  next
    case (Inr u)
    show ?thesis
    proof (cases "decode moveCodec u")
      case (Inl e)
      with Inr MessageReceived show ?thesis by (simp add: update_def)
    next
      case mv: (Inr mv)
      obtain r where r: "move pc st mv = Some r" using move_returns by blast
      show ?thesis
      proof (cases r)
        case (Inl e)
        with r mv Inr MessageReceived show ?thesis by (simp add: update_def)
      next
        case (Inr x)
        obtain st' effs where x: "x = (st', effs)" by (cases x)
        with r Inr have "db st' = db st" using move_db by blast
        with x r mv Inr \<open>parseJson P payload = Inr u\<close> MessageReceived show ?thesis
          by (simp add: update_def)
      qed
    qed
  qed
qed


text \<open>A move that is played keeps the handle 5.\<close>

theorem update_keeps_db_witness:
  "\<exists>st' effs. update sampleParse sampleFailure (MessageReceived PieceX pieceZPayload)
                  (Started (1::nat) 2 initGame 7 (5::nat)) = Some (st', effs) \<and> db st' = 5"
  using update_keeps_db[of sampleParse sampleFailure "MessageReceived PieceX pieceZPayload"
          "Started (1::nat) 2 initGame 7 (5::nat)"]
  by simp


section \<open>Rejected actions\<close>

lemma rowIndexCodec_namedIn: "rowIndexCodec v \<noteq> None \<longleftrightarrow> namedIn rowNames v"
  by (auto simp: rowIndexCodec_def namedIn_def rowNames_def split: option.splits json.splits)

lemma rowSideCodec_namedIn: "rowSideCodec v \<noteq> None \<longleftrightarrow> namedIn sideNames v"
  by (auto simp: rowSideCodec_def namedIn_def sideNames_def split: option.splits json.splits)

lemma moveCodec_object:
  "moveCodec (JObject props) =
     (case (rowIndexCodec (map_of props ''row''), rowSideCodec (map_of props ''side'')) of
        (Some r, Some s) \<Rightarrow> Inr \<lparr>row = r, side = s\<rparr>
      | (Some r, None) \<Rightarrow>
          Inl [ValidationError (map_of props ''side'') [([], ''Move''), (''side'', ''RowSide'')]]
      | (None, Some s) \<Rightarrow>
          Inl [ValidationError (map_of props ''row'') [([], ''Move''), (''row'', ''RowIndex'')]]
      | (None, None) \<Rightarrow>
          Inl [ValidationError (map_of props ''row'') [([], ''Move''), (''row'', ''RowIndex'')],
               ValidationError (map_of props ''side'') [([], ''Move''), (''side'', ''RowSide'')]])"
  by (simp add: moveCodec_def Let_def split: option.splits)

lemma moveCodec_not_object:
  "(\<forall>props. u \<noteq> JObject props) \<Longrightarrow> moveCodec u = Inl [ValidationError (Some u) [([], ''Move'')]]"
  by (cases u) (simp_all add: moveCodec_def)

lemma decode_outside_sets:
  assumes "\<not> namedIn rowNames (map_of props ''row'') \<or> \<not> namedIn sideNames (map_of props ''side'')"
  shows "\<exists>es. es \<noteq> [] \<and> decode moveCodec (JObject props) = Inl (DecodeError es)"
  using assms unfolding rowIndexCodec_namedIn[symmetric] rowSideCodec_namedIn[symmetric]
  by (auto simp: decode_def moveCodec_object split: option.splits)

lemma decode_inside_sets:
  assumes "namedIn rowNames (map_of props ''row'')" "namedIn sideNames (map_of props ''side'')"
  shows "\<exists>mv. decode moveCodec (JObject props) = Inr mv"
  using assms unfolding rowIndexCodec_namedIn[symmetric] rowSideCodec_namedIn[symmetric]
  by (auto simp: decode_def moveCodec_object split: option.splits)

lemma rejected_join:
  "isReady st \<or> isStarted st \<Longrightarrow>
     update P F (PlayerJoined ws) st = Some (st, [logError ''Game already started''])"
  by (cases st) (simp_all add: update_def join_def)

lemma rejected_start:
  "\<not> isReady st \<Longrightarrow>
     update P F (GameStarted g gid) st = Some (st, [logError ''Game is not ready to be started''])"
  by (cases st) (simp_all add: update_def)

lemma move_not_started:
  "\<not> isStarted st \<Longrightarrow> \<exists>m. move pc st mv = Some (Inl m)"
  by (cases st) (simp_all add: move_def)

lemma move_started:
  "move pc (Started px po g gid d) mv =
     (case advance g pc mv of
        None \<Rightarrow> None
      | Some (Inl e) \<Rightarrow> Some (Inl (showAdvanceError e))
      | Some (Inr g') \<Rightarrow>
          Some (Inr (Started px po g' gid d, [saveMove gid mv pc, broadcast (GameUpdate g')])))"
  by (simp add: move_def split: option.splits sum.splits)

lemma update_message:
  "update P F (MessageReceived pc payload) st =
     (case P payload of
        None \<Rightarrow> Some (st, [logError (showApiError F (JsonParseError ''JSON parse failed''))])
      | Some u \<Rightarrow>
          (case moveCodec u of
             Inl es \<Rightarrow> Some (st, [logError (showApiError F (DecodeError es))])
           | Inr mv \<Rightarrow>
               (case move pc st mv of
                  None \<Rightarrow> None
                | Some (Inl m) \<Rightarrow> Some (st, [logError m])
                | Some (Inr r) \<Rightarrow> Some r)))"
  by (simp add: update_def parseJson_def decode_def split: option.splits sum.splits)

lemma rejected_message:
  assumes "rejected P (MessageReceived pc payload) st"
  shows "\<exists>m. update P F (MessageReceived pc payload) st = Some (st, [logError m])"
proof (cases "P payload")
  case None
  then show ?thesis by (simp add: update_message)
next
  case (Some u)
  show ?thesis
  proof (cases "moveCodec u")
    case (Inl es)
    with Some show ?thesis by (simp add: update_message)
  next
    case (Inr mv)
    show ?thesis
    proof (cases "isStarted st")
      case False
      then obtain m where "move pc st mv = Some (Inl m)" using move_not_started by blast
      with Some Inr show ?thesis by (simp add: update_message)
    next
      case True
      then obtain px po g gid d where st: "st = Started px po g gid d" by (cases st) simp_all
      with assms Some Inr obtain e where "advance g pc mv = Some (Inl e)"
        by (auto split: option.splits sum.splits)
      with st Some Inr show ?thesis by (simp add: update_message move_started)
    qed
  qed
qed

text \<open>
  C9, as the code has it.  Every rejected action is atomic and log-only: for a
  join when the state is \<open>Ready\<close> or \<open>Started\<close>, a game start when the state is not
  \<open>Ready\<close>, and a message when the state is not \<open>Started\<close>, or whose payload fails
  JSON parsing or fails to decode as a move, or whose decoded move \<open>advance\<close>
  refuses, \<open>update\<close> returns the state it was given together with a single log
  effect, and running that effect sends nothing.  A payload whose row or side is
  outside the literal sets, or that is not an object, yields a decode error, a
  value and not a crash.  A move payload carries no piece: an object whose row
  and side are in the literal sets decodes to a move whatever else it holds.
\<close>

theorem rejected_actions_log_only:
  "(rejected P a st \<longrightarrow>
      (\<exists>m. update P F a st = Some (st, [logError m]) \<and> sentBy isOpen [logError m] st = []))
   \<and> (P payload = None \<longrightarrow>
        update P F (MessageReceived pc payload) st
          = Some (st, [logError (showApiError F (JsonParseError ''JSON parse failed''))]))
   \<and> (P payload = Some u \<and> moveCodec u = Inl es \<longrightarrow>
        update P F (MessageReceived pc payload) st
          = Some (st, [logError (showApiError F (DecodeError es))]))
   \<and> (\<not> namedIn rowNames (map_of props ''row'') \<or> \<not> namedIn sideNames (map_of props ''side'') \<longrightarrow>
        (\<exists>es. es \<noteq> [] \<and> decode moveCodec (JObject props) = Inl (DecodeError es)))
   \<and> ((\<forall>props. v \<noteq> JObject props) \<longrightarrow>
        decode moveCodec v = Inl (DecodeError [ValidationError (Some v) [([], ''Move'')]]))
   \<and> (namedIn rowNames (map_of props ''row'') \<and> namedIn sideNames (map_of props ''side'') \<longrightarrow>
        (\<exists>mv. decode moveCodec (JObject props) = Inr mv))"
proof -
  have 1: "rejected P a st \<longrightarrow>
      (\<exists>m. update P F a st = Some (st, [logError m]) \<and> sentBy isOpen [logError m] st = [])"
  proof
    assume r: "rejected P a st"
    have "\<exists>m. update P F a st = Some (st, [logError m])"
    proof (cases a)
      case (PlayerJoined ws)
      with r show ?thesis by (simp add: rejected_join)
    next
      case (PlayerLeft pc)
      with r show ?thesis by simp
    next
      case (GameStarted g gid)
      with r show ?thesis by (simp add: rejected_start)
    next
      case (MessageReceived pc payload)
      with r show ?thesis using rejected_message by blast
    qed
    then show "\<exists>m. update P F a st = Some (st, [logError m]) \<and> sentBy isOpen [logError m] st = []"
      by (auto simp: sentBy_def)
  qed
  have 5: "(\<forall>props. v \<noteq> JObject props) \<longrightarrow>
        decode moveCodec v = Inl (DecodeError [ValidationError (Some v) [([], ''Move'')]])"
    by (simp add: decode_def moveCodec_not_object)
  from 1 5 decode_outside_sets[of props] decode_inside_sets[of props]
  show ?thesis by (simp add: update_message)
qed

text \<open>A payload naming a row 9, and a move sent out of turn.\<close>

theorem rejected_actions_log_only_witness:
  "update sampleParse sampleFailure (MessageReceived PieceX row9Payload)
       (Started (1::nat) 2 initGame 7 (0::nat))
     = Some (Started 1 2 initGame 7 0, [logError (''DecodeError: '' @ [CHR 0x22] @ ''Invalid value'' @ [CHR 0x22])])
   \<and> (\<exists>m. update sampleParse sampleFailure (MessageReceived PieceO pieceZPayload)
               (Started (1::nat) 2 initGame 7 (0::nat))
             = Some (Started 1 2 initGame 7 0, [logError m])
            \<and> sentBy allOpen [logError m] (Started (1::nat) 2 initGame 7 (0::nat)) = [])"
proof -
  have p: "sampleParse row9Payload
           = Some (JObject [(''row'', JString ''row9''), (''side'', JString ''left'')])"
    by (simp add: sampleParse_def row9Payload_def pieceZPayload_def)
  have m: "moveCodec (JObject [(''row'', JString ''row9''), (''side'', JString ''left'')])
           = Inl [ValidationError (Some (JString ''row9'')) [([], ''Move''), (''row'', ''RowIndex'')]]"
    by (simp add: moveCodec_def rowIndexCodec_def rowSideCodec_def)
  have r: "rejected sampleParse (MessageReceived PieceO pieceZPayload)
             (Started (1::nat) 2 initGame 7 (0::nat))"
    by (simp add: sampleParse_def moveCodec_def rowIndexCodec_def rowSideCodec_def
          initGame_def advance_def)
  from rejected_actions_log_only[where P = sampleParse and F = sampleFailure
         and a = "MessageReceived PieceO pieceZPayload"
         and st = "Started (1::nat) 2 initGame 7 (0::nat)" and isOpen = allOpen
         and payload = row9Payload and pc = PieceX
         and u = "JObject [(''row'', JString ''row9''), (''side'', JString ''left'')]"
         and es = "[ValidationError (Some (JString ''row9'')) [([], ''Move''), (''row'', ''RowIndex'')]]"]
    p m r
  show ?thesis
    by (simp add: showApiError_def sampleFailure_def)
qed

text \<open>
  A payload with a valid row and side and a piece outside the literal set, sent
  by the player to move: it decodes, the move is played, the state changes and
  the effects are a save and a broadcast.
\<close>

theorem piece_outside_set_is_accepted:
  "update sampleParse sampleFailure (MessageReceived PieceX pieceZPayload)
       (Started (1::nat) 2 initGame 7 (0::nat))
     = Some (Started 1 2 firstMoveGame 7 0,
             [saveMove 7 \<lparr>row = Row1, side = LeftSide\<rparr> PieceX, broadcast (GameUpdate firstMoveGame)])
   \<and> Started (1::nat) 2 firstMoveGame 7 (0::nat) \<noteq> Started 1 2 initGame 7 0"
  by (simp add: update_message sampleParse_def moveCodec_def rowIndexCodec_def rowSideCodec_def
        move_started initGame_def firstMoveGame_def advance_eval addPiece_def grid_eval)


section \<open>The winner and the owner of the run\<close>

text \<open>
  C2.  When \<open>advance\<close> returns \<open>Over\<close>, the winner is the piece that just moved;
  the property asks that the grid of the returned board then holds a run of four
  of that piece.  The game reached from the initial game by \<open>pushMoves\<close> shows
  what the code does instead: \<open>"X"\<close> inserts into row 4 from the left, the piece
  of \<open>"O"\<close> in that row is pushed from column 0 to column 1 and completes a column
  of four \<open>"O"\<close>, and \<open>advance\<close> returns \<open>Over\<close> with winner \<open>"X"\<close>, who has no run
  of four on the board.
\<close>

theorem mover_wins_with_opponents_run:
  "playMoves initGame pushMoves = Some (Playing pushBoardBefore PieceX)
   \<and> advance (Playing pushBoardBefore PieceX) PieceX \<lparr>row = Row4, side = LeftSide\<rparr>
       = Some (Inr (Over pushBoardAfter PieceX))
   \<and> \<not> ownsFour PieceX (toGrid pushBoardAfter)
   \<and> ownsFour PieceO (toGrid pushBoardAfter)"
proof -
  have 1: "playMoves initGame pushMoves = Some (Playing pushBoardBefore PieceX)"
    by (simp add: pushMoves_def initGame_def advance_eval addPiece_def pushBoardBefore_def grid_eval)
  have 2: "advance (Playing pushBoardBefore PieceX) PieceX \<lparr>row = Row4, side = LeftSide\<rparr>
       = Some (Inr (Over pushBoardAfter PieceX))"
    by (simp add: advance_eval addPiece_def pushBoardBefore_def pushBoardAfter_def grid_eval)
  have 3: "\<not> ownsFour PieceX (toGrid pushBoardAfter)"
    by (simp add: pushBoardBefore_def pushBoardAfter_def grid_eval)
  have 4: "ownsFour PieceO (toGrid pushBoardAfter)"
    by (simp add: pushBoardBefore_def pushBoardAfter_def grid_eval)
  from 1 2 3 4 show ?thesis by simp
qed


end
